theory Spec2Isabelle
  imports Main "HOL-Library.Sublist" "HOL-Library.AList"
begin

section \<open>Python values, errors and calls\<close>

text \<open>
  The library is dynamically typed: a field declared \<open>str\<close> can hold anything until
  \<open>validate()\<close> looks at it. Fields are therefore Python values. Dictionaries keep
  their insertion order and are association lists with string keys.
\<close>

datatype error =
  InvalidTypeError | ValueError | AssertionError | AttributeError | TypeError | IndexError
  | OverflowError

text \<open>The component classes that \<open>card.py\<close> imports from \<open>common.py\<close> and \<open>itemcard.py\<close>.\<close>

datatype cls =
  Button | ListItem | Link | Thumbnail | Profile
  | Item | ItemThumbnail | ItemProfile | ImageTitle | ItemListSummary

datatype pyval =
  PNone
  | PBool bool
  | PInt int
  | PStr string
  | PList "pyval list"
  | PDict "(string \<times> pyval) list"
  | PContextParam pyval pyval
  | PEventUser pyval pyval pyval
  | PLeaf cls "(string \<times> pyval) list"

text \<open>
  \<open>PContextParam value resolved_value\<close> and \<open>PEventUser id_type id properties\<close> are
  instances of the two classes of \<open>context.py\<close> and \<open>event.py\<close>; \<open>PLeaf c attrs\<close> is an
  instance of class \<open>c\<close> with the attributes \<open>attrs\<close>. A value carries no object
  identity: where Python compares objects (\<open>list.remove\<close>), the outcome of the comparison is
  an argument of the model.
\<close>

type_synonym kwargs = "(string \<times> pyval) list"

text \<open>Python truthiness (\<open>if x:\<close>); the classes define neither \<open>__bool__\<close> nor \<open>__len__\<close>.\<close>

fun truthy :: "pyval \<Rightarrow> bool" where
  "truthy PNone = False"
| "truthy (PBool b) = b"
| "truthy (PInt i) = (i \<noteq> 0)"
| "truthy (PStr s) = (s \<noteq> [])"
| "truthy (PList xs) = (xs \<noteq> [])"
| "truthy (PDict kvs) = (kvs \<noteq> [])"
| "truthy (PContextParam v r) = True"
| "truthy (PEventUser t i p) = True"
| "truthy (PLeaf c a) = True"

text \<open>\<open>isinstance(v, dict)\<close> and \<open>isinstance(v, str)\<close>.\<close>

fun is_dict :: "pyval \<Rightarrow> bool" where
  "is_dict (PDict kvs) = True"
| "is_dict v = False"

fun is_str :: "pyval \<Rightarrow> bool" where
  "is_str (PStr s) = True"
| "is_str v = False"

text \<open>\<open>isinstance(v, int)\<close>: \<open>bool\<close> is a subclass of \<open>int\<close>.\<close>

fun is_int :: "pyval \<Rightarrow> bool" where
  "is_int (PInt i) = True"
| "is_int (PBool b) = True"
| "is_int v = False"

text \<open>Sequencing of calls that may raise.\<close>

definition bindE :: "error + 'a \<Rightarrow> ('a \<Rightarrow> error + 'b) \<Rightarrow> error + 'b" where
  "bindE r k = (case r of Inl e \<Rightarrow> Inl e | Inr v \<Rightarrow> k v)"

definition seq :: "error + unit \<Rightarrow> error + 'b \<Rightarrow> error + 'b" where
  "seq r k = (case r of Inl e \<Rightarrow> Inl e | Inr u \<Rightarrow> k)"

text \<open>A \<open>for\<close> loop whose body may raise, and a list comprehension whose element may raise.\<close>

fun iterE :: "('a \<Rightarrow> error + unit) \<Rightarrow> 'a list \<Rightarrow> error + unit" where
  "iterE f [] = Inr ()"
| "iterE f (v # vs) = (case f v of Inl e \<Rightarrow> Inl e | Inr u \<Rightarrow> iterE f vs)"

fun mapE :: "('a \<Rightarrow> error + 'b) \<Rightarrow> 'a list \<Rightarrow> error + 'b list" where
  "mapE f [] = Inr []"
| "mapE f (v # vs) =
     (case f v of Inl e \<Rightarrow> Inl e
      | Inr y \<Rightarrow> (case mapE f vs of Inl e \<Rightarrow> Inl e | Inr ys \<Rightarrow> Inr (y # ys)))"

section \<open>Validation utilities\<close>

text \<open>
  Modelled from the spec: \<open>validation.py\<close> (\<open>validate_str\<close>, \<open>validate_int\<close>,
  \<open>validate_type\<close>) is not among the sources. Section 4.1 of the specification: each
  utility takes zero or more values, fails with the type-mismatch error on the first value
  that is present but of the wrong kind, and with \<open>disallow_none\<close> also on an absent value.
  The expected type of \<open>validate_type\<close> is given by its instance test.
\<close>

fun validate_with :: "(pyval \<Rightarrow> bool) \<Rightarrow> bool \<Rightarrow> pyval list \<Rightarrow> error + unit" where
  "validate_with ok disallow_none [] = Inr ()"
| "validate_with ok disallow_none (v # vs) =
     (if v = PNone then
        (if disallow_none then Inl InvalidTypeError else validate_with ok disallow_none vs)
      else if ok v then validate_with ok disallow_none vs
      else Inl InvalidTypeError)"

definition validate_str :: "bool \<Rightarrow> pyval list \<Rightarrow> error + unit" where
  "validate_str disallow_none values = validate_with is_str disallow_none values"

definition validate_int :: "bool \<Rightarrow> pyval list \<Rightarrow> error + unit" where
  "validate_int disallow_none values = validate_with is_int disallow_none values"

definition validate_type :: "(pyval \<Rightarrow> bool) \<Rightarrow> bool \<Rightarrow> pyval list \<Rightarrow> error + unit" where
  "validate_type expected disallow_none values = validate_with expected disallow_none values"

section \<open>base.py\<close>

text \<open>
  \<open>BaseModel.remove_none_item\<close>: a fresh dictionary receives, in iteration order, every
  pair whose value is not \<open>None\<close>; \<open>out[key] = value\<close> is \<open>AList.update\<close>.
\<close>

definition remove_none_item :: "kwargs \<Rightarrow> kwargs" where
  "remove_none_item base =
     fold (\<lambda>(key, value) out. if value \<noteq> PNone then AList.update key value out else out) base []"

section \<open>Code outside the sources\<close>

text \<open>
  \<open>response/base.py\<close>, \<open>common.py\<close> and \<open>itemcard.py\<close> are not among the sources. What
  the cards call from them is a parameter of the model:
  \<^item> \<open>parent_validate\<close>: \<open>ParentComponent.validate\<close>, reached through \<open>super().validate()\<close>,
    given the class attribute \<open>name\<close> of the card;
  \<^item> \<open>leaf_validate\<close>, \<open>leaf_render\<close>: the methods of a leaf object, given its class and
    attributes;
  \<^item> \<open>leaf_init\<close>: the constructor call \<open>C(*args, **kwargs)\<close>, giving the attributes of
    the new instance;
  \<^item> \<open>is_subclass\<close>: which of these classes is declared a subclass of which;
  \<^item> \<open>wire_name\<close>: the table that renames an attribute of a leaf class to its wire key;
  \<^item> \<open>str_of\<close>: Python's \<open>str()\<close> on a value that is not a string (used by f-strings).
\<close>

record ext =
  parent_validate :: "string \<Rightarrow> error + unit"
  leaf_validate :: "cls \<Rightarrow> kwargs \<Rightarrow> error + unit"
  leaf_render :: "cls \<Rightarrow> kwargs \<Rightarrow> error + pyval"
  leaf_init :: "cls \<Rightarrow> pyval list \<Rightarrow> kwargs \<Rightarrow> error + kwargs"
  is_subclass :: "cls \<Rightarrow> cls \<Rightarrow> bool"
  wire_name :: "cls \<Rightarrow> string \<Rightarrow> string"
  str_of :: "pyval \<Rightarrow> string"

text \<open>
  \<open>isinstance(v, C)\<close> for a component class \<open>C\<close>: \<open>v\<close> is an instance of \<open>C\<close> or of a class
  declared a subclass of \<open>C\<close>. Strings, numbers, containers and the objects of \<open>context.py\<close>
  and \<open>event.py\<close> are instances of none of these classes.
\<close>

definition isinstance :: "ext \<Rightarrow> pyval \<Rightarrow> cls \<Rightarrow> bool" where
  "isinstance x v c' = (case v of PLeaf c a \<Rightarrow> c = c' \<or> is_subclass x c c' | _ \<Rightarrow> False)"

text \<open>
  Modelled from the spec: the \<open>render\<close> of the leaf classes (\<open>Button\<close>, \<open>Link\<close>, \<open>Thumbnail\<close>,
  \<open>Profile\<close>, \<open>ListItem\<close> and the item-card leaves) is not among the sources. Sections 3
  and 4.2 of the specification: \<open>render()\<close> invokes \<open>validate()\<close> first and returns a mapping
  with the required fields present, the optional fields omitted if absent, and the keys
  renamed from the internal names to the wire names.
\<close>

definition spec_leaf_render :: "ext \<Rightarrow> cls \<Rightarrow> kwargs \<Rightarrow> error + pyval" where
  "spec_leaf_render x c attrs =
     seq (leaf_validate x c attrs)
       (Inr (PDict (remove_none_item (map (\<lambda>(k, v). (wire_name x c k, v)) attrs))))"

text \<open>Interpolation of a value into an f-string.\<close>

definition format_field :: "ext \<Rightarrow> pyval \<Rightarrow> string" where
  "format_field x v = (case v of PStr s \<Rightarrow> s | _ \<Rightarrow> str_of x v)"

section \<open>context.py\<close>

definition ContextParam_validate :: "pyval \<Rightarrow> pyval \<Rightarrow> error + unit" where
  "ContextParam_validate val resolved_value = validate_str False [val, resolved_value]"

definition ContextParam_render :: "pyval \<Rightarrow> pyval \<Rightarrow> error + pyval" where
  "ContextParam_render val resolved_value =
     seq (ContextParam_validate val resolved_value) (Inr val)"

record Context =
  ctx_name :: pyval
  ctx_lifespan :: pyval
  ctx_ttl :: pyval
  ctx_params :: pyval

text \<open>\<open>Context.__init__\<close>: \<open>self.params = params or {}\<close>.\<close>

definition Context_init :: "pyval \<Rightarrow> pyval \<Rightarrow> pyval \<Rightarrow> pyval \<Rightarrow> Context" where
  "Context_init nm lifespan ttl params =
     \<lparr>ctx_name = nm, ctx_lifespan = lifespan, ctx_ttl = ttl,
      ctx_params = (if truthy params then params else PDict [])\<rparr>"

definition render_param :: "string \<times> pyval \<Rightarrow> error + (string \<times> pyval)" where
  "render_param kp =
     (case kp of
        (key, PContextParam v r) \<Rightarrow> bindE (ContextParam_render v r) (\<lambda>y. Inr (key, y))
      | (key, param) \<Rightarrow> Inr (key, param))"

text \<open>\<open>Context.render\<close> builds the dictionary and returns it; \<open>validate\<close> is not called.\<close>

definition Context_render :: "Context \<Rightarrow> error + pyval" where
  "Context_render c =
     bindE (if truthy (ctx_params c) then
              (case ctx_params c of
                 PDict kvs \<Rightarrow> bindE (mapE render_param kvs) (\<lambda>ps. Inr (PDict ps))
               | _ \<Rightarrow> Inl AttributeError)
            else Inr PNone)
       (\<lambda>p. Inr (PDict (remove_none_item
          [(''name'', ctx_name c), (''lifeSpan'', ctx_lifespan c),
           (''ttl'', ctx_ttl c), (''params'', p)])))"

definition Context_validate :: "Context \<Rightarrow> error + unit" where
  "Context_validate c =
     seq (validate_str False [ctx_name c])
       (seq (validate_int False [ctx_lifespan c, ctx_ttl c])
          (validate_type is_dict False [ctx_params c]))"

section \<open>Method calls on a Python value\<close>

definition EventUser_type_list :: "string list" where
  "EventUser_type_list = [''appUserId'', ''plusfriendUserKey'', ''botUserKey'']"

definition EventUser_validate :: "pyval \<Rightarrow> pyval \<Rightarrow> pyval \<Rightarrow> error + unit" where
  "EventUser_validate id_type ident properties =
     seq (if id_type \<in> set (map PStr EventUser_type_list) then Inr () else Inl AssertionError)
       (seq (validate_str True [ident])
          (validate_type is_dict False [properties]))"

text \<open>\<open>EventUser.render\<close> returns the dictionary; \<open>validate\<close> is not called.\<close>

definition EventUser_render :: "pyval \<Rightarrow> pyval \<Rightarrow> pyval \<Rightarrow> error + pyval" where
  "EventUser_render id_type ident properties =
     Inr (PDict (remove_none_item
       [(''type'', id_type), (''id'', ident), (''properties'', properties)]))"

text \<open>
  \<open>v.validate()\<close> and \<open>v.render()\<close> on any value: the method of the object's class, and
  \<open>AttributeError\<close> on a value that has no such method.
\<close>

definition call_validate :: "ext \<Rightarrow> pyval \<Rightarrow> error + unit" where
  "call_validate x v =
     (case v of
        PContextParam a r \<Rightarrow> ContextParam_validate a r
      | PEventUser t i p \<Rightarrow> EventUser_validate t i p
      | PLeaf c a \<Rightarrow> leaf_validate x c a
      | _ \<Rightarrow> Inl AttributeError)"

definition call_render :: "ext \<Rightarrow> pyval \<Rightarrow> error + pyval" where
  "call_render x v =
     (case v of
        PContextParam a r \<Rightarrow> ContextParam_render a r
      | PEventUser t i p \<Rightarrow> EventUser_render t i p
      | PLeaf c a \<Rightarrow> leaf_render x c a
      | _ \<Rightarrow> Inl AttributeError)"

text \<open>\<open>[v.render() for v in vs] if vs else None\<close> and \<open>v.render() if v else None\<close>.\<close>

definition render_list :: "ext \<Rightarrow> pyval list \<Rightarrow> error + pyval" where
  "render_list x vs =
     (if vs \<noteq> [] then bindE (mapE (call_render x) vs) (\<lambda>rs. Inr (PList rs)) else Inr PNone)"

definition render_opt :: "ext \<Rightarrow> pyval \<Rightarrow> error + pyval" where
  "render_opt x v = (if truthy v then call_render x v else Inr PNone)"

section \<open>event.py\<close>

record EventAPI =
  bot_id :: pyval
  api_key :: pyval
  event :: pyval
  users :: "pyval list"
  data :: pyval
  params :: pyval
  option :: pyval
  is_devchannel :: bool
  max_user :: int

text \<open>
  \<open>EventAPI.__init__\<close>: on the dev channel a bot id that ends in \<open>!\<close> loses it
  (\<open>bot_id[:-1]\<close>); \<open>users\<close>, \<open>data\<close> and \<open>params\<close> default to empty containers.
\<close>

definition EventAPI_init ::
  "pyval \<Rightarrow> pyval \<Rightarrow> pyval \<Rightarrow> pyval list option \<Rightarrow> pyval \<Rightarrow> pyval \<Rightarrow> pyval \<Rightarrow> bool \<Rightarrow> int
   \<Rightarrow> error + EventAPI" where
  "EventAPI_init b k ev us d ps opt dev mx =
     bindE (if dev then
              (case b of
                 PStr s \<Rightarrow> Inr (if s \<noteq> [] \<and> last s = CHR ''!'' then PStr (butlast s) else PStr s)
               | _ \<Rightarrow> Inl AttributeError)
            else Inr b)
       (\<lambda>b'. Inr \<lparr>bot_id = b', api_key = k, event = ev,
                  users = (case us of None \<Rightarrow> [] | Some l \<Rightarrow> l),
                  data = (if d = PNone then PDict [] else d),
                  params = (if ps = PNone then PDict [] else ps),
                  option = opt, is_devchannel = dev, max_user = mx\<rparr>)"

definition EventAPI_validate :: "ext \<Rightarrow> EventAPI \<Rightarrow> error + unit" where
  "EventAPI_validate x e =
     seq (validate_str True [bot_id e, api_key e, event e])
       (if users e = [] then Inl AssertionError
        else if int (length (users e)) > max_user e then Inl AssertionError
        else seq (iterE (call_validate x) (users e))
               (validate_type is_dict False [params e, option e, data e]))"

definition EventAPI_render :: "ext \<Rightarrow> EventAPI \<Rightarrow> error + pyval" where
  "EventAPI_render x e =
     (let ev = remove_none_item
                 [(''name'', event e), (''data'', if truthy (data e) then data e else PNone)]
      in seq (EventAPI_validate x e)
           (bindE (render_list x (users e))
              (\<lambda>us. Inr (PDict (remove_none_item
                 [(''event'', PDict ev), (''user'', us),
                  (''params'', if truthy (params e) then params e else PNone),
                  (''option'', option e)])))))"

text \<open>
  \<open>EventAPI.headers\<close> stores the prefixed key back into the object: the result is the
  header dictionary and the object after the call.
\<close>

definition EventAPI_headers :: "EventAPI \<Rightarrow> error + (pyval \<times> EventAPI)" where
  "EventAPI_headers e =
     (case api_key e of
        PStr k \<Rightarrow>
          (let e' = (if \<not> prefix ''KakaoAK '' k then e\<lparr>api_key := PStr (''KakaoAK '' @ k)\<rparr> else e)
           in Inr (PDict [(''Content-Type'', PStr ''application/json''),
                          (''Authorization'', api_key e')], e'))
      | _ \<Rightarrow> Inl AttributeError)"

definition EventAPI_url :: "ext \<Rightarrow> EventAPI \<Rightarrow> string" where
  "EventAPI_url x e =
     (if is_devchannel e then
        ''https://dev-bot-api.kakao.com/v2/bots/'' @ [CHR 0x27] @ format_field x (bot_id e)
          @ ''!'' @ [CHR 0x27] @ ''/talk''
      else ''https://bot-api.kakao.com/v2/bots/'' @ format_field x (bot_id e) @ ''/talk'')"

record CheckEventAPI =
  task_id :: pyval
  chk_api_key :: pyval

definition CheckEventAPI_validate :: "CheckEventAPI \<Rightarrow> error + unit" where
  "CheckEventAPI_validate c = validate_str True [task_id c, chk_api_key c]"

definition CheckEventAPI_render :: "CheckEventAPI \<Rightarrow> error + pyval" where
  "CheckEventAPI_render c =
     seq (CheckEventAPI_validate c)
       (case chk_api_key c of
          PStr k \<Rightarrow>
            Inr (PDict [(''Authorization'',
                         PStr (if \<not> prefix ''KakaoAK '' k then ''KakaoAK '' @ k else k)),
                        (''Content-Type'', PStr ''application/json'')])
        | _ \<Rightarrow> Inl AttributeError)"

definition CheckEventAPI_headers :: "CheckEventAPI \<Rightarrow> error + pyval" where
  "CheckEventAPI_headers c = CheckEventAPI_render c"

section \<open>card.py\<close>

subsection \<open>ParentCardComponent\<close>

record ParentCardComponent =
  buttons :: "pyval list"

definition ParentCardComponent_validate ::
  "ext \<Rightarrow> string \<Rightarrow> 'a ParentCardComponent_scheme \<Rightarrow> error + unit" where
  "ParentCardComponent_validate x nm c =
     seq (parent_validate x nm)
       (if buttons c \<noteq> [] then
          iterE (\<lambda>button. validate_type (\<lambda>v. isinstance x v Button) False [button]) (buttons c)
        else Inr ())"

text \<open>
  \<open>add_button(*args, **kwargs)\<close>: one positional \<open>Button\<close> is appended as it is, so is the
  keyword \<open>button\<close> of a call without positional arguments; anything else goes to the
  constructor \<open>Button(*args, **kwargs)\<close> and the new button is appended.
\<close>

definition add_button ::
  "ext \<Rightarrow> pyval list \<Rightarrow> kwargs \<Rightarrow> 'a ParentCardComponent_scheme
   \<Rightarrow> error + 'a ParentCardComponent_scheme" where
  "add_button x args kw c =
     (if length args = 1 \<and> isinstance x (hd args) Button then
        Inr (c\<lparr>buttons := buttons c @ [hd args]\<rparr>)
      else
        (case (if length args = 0 then map_of kw ''button'' else None) of
           Some b \<Rightarrow> Inr (c\<lparr>buttons := buttons c @ [b]\<rparr>)
         | None \<Rightarrow>
             bindE (leaf_init x Button args kw)
               (\<lambda>a. Inr (c\<lparr>buttons := buttons c @ [PLeaf Button a]\<rparr>))))"

subsection \<open>TextCardComponent\<close>

record TextCardComponent = ParentCardComponent +
  tc_title :: pyval
  tc_description :: pyval

definition TextCardComponent_validate :: "ext \<Rightarrow> TextCardComponent \<Rightarrow> error + unit" where
  "TextCardComponent_validate x c =
     seq (ParentCardComponent_validate x ''textCard'' c)
       (if tc_title c = PNone \<and> tc_description c = PNone then Inl ValueError
        else if tc_title c = PNone then validate_str False [tc_description c]
        else validate_str False [tc_title c])"

definition TextCardComponent_render :: "ext \<Rightarrow> TextCardComponent \<Rightarrow> error + pyval" where
  "TextCardComponent_render x c =
     seq (TextCardComponent_validate x c)
       (bindE (render_list x (buttons c))
          (\<lambda>bs. Inr (PDict (remove_none_item
             [(''title'', tc_title c), (''description'', tc_description c),
              (''buttons'', bs)]))))"

subsection \<open>BasicCardComponent\<close>

record BasicCardComponent = ParentCardComponent +
  bc_thumbnail :: pyval
  bc_title :: pyval
  bc_description :: pyval
  bc_forwardable :: pyval

definition BasicCardComponent_validate :: "ext \<Rightarrow> BasicCardComponent \<Rightarrow> error + unit" where
  "BasicCardComponent_validate x c =
     seq (ParentCardComponent_validate x ''basicCard'' c)
       (seq (validate_type (\<lambda>v. isinstance x v Thumbnail) False [bc_thumbnail c])
          (validate_str False [bc_title c, bc_description c]))"

definition BasicCardComponent_render :: "ext \<Rightarrow> BasicCardComponent \<Rightarrow> error + pyval" where
  "BasicCardComponent_render x c =
     seq (BasicCardComponent_validate x c)
       (bindE (call_render x (bc_thumbnail c))
          (\<lambda>th. bindE (render_list x (buttons c))
             (\<lambda>bs. Inr (PDict (remove_none_item
                [(''thumbnail'', th), (''title'', bc_title c),
                 (''description'', bc_description c), (''buttons'', bs),
                 (''forwardable'',
                    if truthy (bc_forwardable c) then bc_forwardable c else PNone)])))))"

subsection \<open>CommerceCardComponent\<close>

record CommerceCardComponent = ParentCardComponent +
  price :: pyval
  thumbnails :: "pyval list"
  cc_title :: pyval
  cc_description :: pyval
  currency :: pyval
  discount :: pyval
  discount_rate :: pyval
  discount_price :: pyval
  cc_profile :: pyval

definition CommerceCardComponent_validate ::
  "ext \<Rightarrow> CommerceCardComponent \<Rightarrow> error + unit" where
  "CommerceCardComponent_validate x c =
     seq (ParentCardComponent_validate x ''commerceCard'' c)
       (seq (validate_int True [price c])
          (seq (iterE (\<lambda>thumbnail. validate_type (\<lambda>v. isinstance x v Thumbnail) False [thumbnail])
                  (thumbnails c))
             (seq (validate_str False [cc_title c, cc_description c])
                (seq (if truthy (currency c) \<and> currency c \<noteq> PStr ''won''
                      then Inl AssertionError else Inr ())
                   (seq (validate_int False
                           [discount c, discount_price c, discount_rate c, discount_price c])
                      (validate_type (\<lambda>v. isinstance x v Profile) False [cc_profile c]))))))"

definition CommerceCardComponent_render ::
  "ext \<Rightarrow> CommerceCardComponent \<Rightarrow> error + pyval" where
  "CommerceCardComponent_render x c =
     seq (CommerceCardComponent_validate x c)
       (bindE (mapE (call_render x) (thumbnails c))
          (\<lambda>ths. bindE (render_opt x (cc_profile c))
             (\<lambda>pr. bindE (render_list x (buttons c))
                (\<lambda>bs. Inr (PDict (remove_none_item
                   [(''price'', price c), (''thumbnails'', PList ths),
                    (''title'', cc_title c), (''description'', cc_description c),
                    (''currency'', currency c), (''discount'', discount c),
                    (''discountRate'', discount_rate c),
                    (''discountPrice'', discount_price c),
                    (''profile'', pr), (''buttons'', bs)]))))))"

subsection \<open>ListCardComponent\<close>

record ListCardComponent = ParentCardComponent +
  header :: pyval
  items :: "pyval list"
  max_buttons :: int
  max_items :: int

text \<open>
  \<open>ListCardComponent.__init__\<close>: a header given as a string becomes
  \<open>ListItem(title=header)\<close>; \<open>items\<close> and \<open>buttons\<close> default to empty lists.
\<close>

definition ListCardComponent_init ::
  "ext \<Rightarrow> pyval \<Rightarrow> pyval list option \<Rightarrow> pyval list option \<Rightarrow> int \<Rightarrow> int
   \<Rightarrow> error + ListCardComponent" where
  "ListCardComponent_init x h its bts mb mi =
     bindE (if is_str h then
              bindE (leaf_init x ListItem [] [(''title'', h)]) (\<lambda>a. Inr (PLeaf ListItem a))
            else Inr h)
       (\<lambda>h'. Inr \<lparr>buttons = (case bts of None \<Rightarrow> [] | Some l \<Rightarrow> l),
                  header = h', items = (case its of None \<Rightarrow> [] | Some l \<Rightarrow> l),
                  max_buttons = mb, max_items = mi\<rparr>)"

definition ListCardComponent_validate :: "ext \<Rightarrow> ListCardComponent \<Rightarrow> error + unit" where
  "ListCardComponent_validate x c =
     seq (ParentCardComponent_validate x ''listCard'' c)
       (if length (items c) < 1 then Inl AssertionError
        else if int (length (items c)) > max_items c then Inl AssertionError
        else if int (length (buttons c)) > max_buttons c then Inl AssertionError
        else seq (validate_type (\<lambda>v. isinstance x v ListItem) True [header c])
               (validate_type (\<lambda>v. isinstance x v ListItem) False (items c)))"

definition ListCardComponent_render :: "ext \<Rightarrow> ListCardComponent \<Rightarrow> error + pyval" where
  "ListCardComponent_render x c =
     seq (ListCardComponent_validate x c)
       (bindE (call_render x (header c))
          (\<lambda>hd_r. bindE (render_list x (items c))
             (\<lambda>its. bindE (render_list x (buttons c))
                (\<lambda>bs. Inr (PDict (remove_none_item
                   [(''header'', hd_r), (''items'', its), (''buttons'', bs)]))))))"

text \<open>\<open>ListCardComponent.add_item(*args, **kwargs)\<close>, with the dispatch of \<open>add_button\<close>.\<close>

definition add_item ::
  "ext \<Rightarrow> pyval list \<Rightarrow> kwargs \<Rightarrow> ListCardComponent \<Rightarrow> error + ListCardComponent" where
  "add_item x args kw c =
     (if length args = 1 \<and> isinstance x (hd args) ListItem then
        Inr (c\<lparr>items := items c @ [hd args]\<rparr>)
      else
        (case (if length args = 0 then map_of kw ''item'' else None) of
           Some it \<Rightarrow> Inr (c\<lparr>items := items c @ [it]\<rparr>)
         | None \<Rightarrow>
             bindE (leaf_init x ListItem args kw)
               (\<lambda>a. Inr (c\<lparr>items := items c @ [PLeaf ListItem a]\<rparr>))))"

subsection \<open>ItemCardComponent\<close>

record ItemCardComponent = ParentCardComponent +
  item_list :: "pyval list"
  ic_thumbnail :: pyval
  head :: pyval
  ic_profile :: pyval
  image_title :: pyval
  item_list_alignment :: pyval
  item_list_summary :: pyval
  ic_title :: pyval
  ic_description :: pyval
  button_layout :: pyval

definition ItemCardComponent_validate :: "ext \<Rightarrow> ItemCardComponent \<Rightarrow> error + unit" where
  "ItemCardComponent_validate x c =
     seq (ParentCardComponent_validate x ''itemCard'' c)
       (seq (iterE (\<lambda>item. validate_type (\<lambda>v. isinstance x v Item) False [item]) (item_list c))
          (seq (validate_type (\<lambda>v. isinstance x v ItemThumbnail) False [ic_thumbnail c])
             (seq (validate_type (\<lambda>v. isinstance x v ItemProfile) False [ic_profile c])
                (seq (validate_type (\<lambda>v. isinstance x v ImageTitle) False [image_title c])
                   (seq (validate_type (\<lambda>v. isinstance x v ItemListSummary) False [item_list_summary c])
                      (validate_str False
                         [head c, ic_title c, ic_description c, button_layout c]))))))"

definition ItemCardComponent_render :: "ext \<Rightarrow> ItemCardComponent \<Rightarrow> error + pyval" where
  "ItemCardComponent_render x c =
     seq (ItemCardComponent_validate x c)
       (bindE (render_opt x (ic_thumbnail c))
          (\<lambda>th. bindE (render_opt x (ic_profile c))
             (\<lambda>pr. bindE (render_opt x (image_title c))
                (\<lambda>im. bindE (mapE (call_render x) (item_list c))
                   (\<lambda>its. bindE (render_opt x (item_list_summary c))
                      (\<lambda>su. bindE (render_list x (buttons c))
                         (\<lambda>bs. Inr (PDict (remove_none_item
                            [(''thumbnail'', th),
                             (''head'', if truthy (head c)
                                        then PDict [(''title'', head c)] else PNone),
                             (''profile'', pr), (''imageTitle'', im),
                             (''itemList'', PList its),
                             (''itemListAlignment'', item_list_alignment c),
                             (''itemListSummary'', su),
                             (''title'', ic_title c), (''description'', ic_description c),
                             (''buttonLayout'', button_layout c),
                             (''buttons'', bs)])))))))))"

text \<open>
  \<open>list.remove(v)\<close> removes the first element \<open>e\<close> with \<open>e is v or e == v\<close> and raises
  \<open>ValueError\<close> when there is none. For the instances of a class without \<open>__eq__\<close> the
  test is object identity, which a value does not carry: \<open>same i\<close> is the outcome of the
  test for the element at index \<open>i\<close>.
\<close>

definition list_remove :: "(nat \<Rightarrow> bool) \<Rightarrow> pyval list \<Rightarrow> error + pyval list" where
  "list_remove same xs =
     (case filter same [0..<length xs] of
        [] \<Rightarrow> Inl ValueError
      | i # rest \<Rightarrow> Inr (take i xs @ drop (Suc i) xs))"

text \<open>
  \<open>list.pop(i)\<close>: the index is converted to a C \<open>ssize_t\<close> (64 bits here), which raises
  \<open>OverflowError\<close> outside its range and \<open>TypeError\<close> on a value that is no integer;
  a negative index counts from the end; \<open>IndexError\<close> out of range.
\<close>

definition ssize_t_max :: int where
  "ssize_t_max = 2 ^ 63 - 1"

definition list_pop :: "pyval list \<Rightarrow> pyval \<Rightarrow> error + pyval list" where
  "list_pop xs i =
     (case (case i of PInt k \<Rightarrow> Some k | PBool b \<Rightarrow> Some (if b then 1 else 0) | _ \<Rightarrow> None) of
        None \<Rightarrow> Inl TypeError
      | Some k \<Rightarrow>
          if k > ssize_t_max \<or> k < - ssize_t_max - 1 then Inl OverflowError
          else
            (let n = int (length xs); j = (if k < 0 then n + k else k)
             in if 0 \<le> j \<and> j < n then Inr (take (nat j) xs @ drop (Suc (nat j)) xs)
                else Inl IndexError))"

text \<open>
  \<open>ItemCardComponent.remove_item(*args, **kwargs)\<close>. The arm of the
  \<open>if\<close>/\<open>elif\<close> chain that a call takes: \<open>args[0]\<close> is read by the first test, which
  raises \<open>IndexError\<close> on an empty \<open>args\<close>.
\<close>

datatype remove_arm = RaisesIndexError | PosItem | PosIndex | KwItem | KwIndex | NoArm

definition remove_item_arm :: "ext \<Rightarrow> pyval list \<Rightarrow> kwargs \<Rightarrow> remove_arm" where
  "remove_item_arm x args kw =
     (case args of
        [] \<Rightarrow> RaisesIndexError
      | a0 # rest \<Rightarrow>
          if isinstance x a0 Item then PosItem
          else if is_int a0 then PosIndex
          else if map_of kw ''item'' \<noteq> None then KwItem
          else if map_of kw ''index'' \<noteq> None then KwIndex
          else NoArm)"

definition set_item_list :: "ItemCardComponent \<Rightarrow> pyval list \<Rightarrow> error + ItemCardComponent" where
  "set_item_list c l = Inr (c\<lparr>item_list := l\<rparr>)"

text \<open>
  \<open>same i\<close> tells whether \<open>item_list[i]\<close> is (or equals) the object that the call removes,
  \<open>args[0]\<close> or \<open>kwargs['item']\<close>.
\<close>

definition remove_item ::
  "ext \<Rightarrow> (nat \<Rightarrow> bool) \<Rightarrow> pyval list \<Rightarrow> kwargs \<Rightarrow> ItemCardComponent
   \<Rightarrow> error + ItemCardComponent" where
  "remove_item x same args kw c =
     (case remove_item_arm x args kw of
        RaisesIndexError \<Rightarrow> Inl IndexError
      | PosItem \<Rightarrow> bindE (list_remove same (item_list c)) (set_item_list c)
      | PosIndex \<Rightarrow> bindE (list_pop (item_list c) (hd args)) (set_item_list c)
      | KwItem \<Rightarrow> bindE (list_remove same (item_list c)) (set_item_list c)
      | KwIndex \<Rightarrow>
          (case map_of kw ''index'' of
             Some v \<Rightarrow> bindE (list_pop (item_list c) v) (set_item_list c)
           | None \<Rightarrow> Inr c)
      | NoArm \<Rightarrow> Inr c)"

section \<open>Reference definitions and concrete inputs\<close>

text \<open>
  The URL shape and the authorization value as the specification words them:
  \<open>https://bot-api.<host>/v2/bots/{botId}/talk\<close> with the whole host as a parameter, and
  the scheme token put in front of the API key unless it is there already.
\<close>

definition spec_talk_url :: "string \<Rightarrow> string \<Rightarrow> string" where
  "spec_talk_url host botId = ''https://'' @ host @ ''/v2/bots/'' @ botId @ ''/talk''"

definition spec_authorization :: "string \<Rightarrow> string" where
  "spec_authorization apiKey =
     (if prefix ''KakaoAK '' apiKey then apiKey else ''KakaoAK '' @ apiKey)"

text \<open>
  An instance of the parameters, to run the model on concrete inputs: the base validation
  accepts every card, a leaf is built from keyword arguments only, validates, and renders
  its attributes that are not \<open>None\<close> under their own names; no class is a subclass of
  another.
\<close>

definition plain_ext :: ext where
  "plain_ext =
     \<lparr>parent_validate = (\<lambda>nm. Inr ()),
      leaf_validate = (\<lambda>c a. Inr ()),
      leaf_render = (\<lambda>c a. Inr (PDict (remove_none_item a))),
      leaf_init = (\<lambda>c args kw. if args = [] then Inr kw else Inl TypeError),
      is_subclass = (\<lambda>c c'. False),
      wire_name = (\<lambda>c k. k),
      str_of = (\<lambda>v. ''?'')\<rparr>"

definition sample_list_item :: pyval where
  "sample_list_item = PLeaf ListItem [(''title'', PStr ''item''), (''description'', PNone)]"

definition sample_list_card :: "nat \<Rightarrow> ListCardComponent" where
  "sample_list_card n =
     \<lparr>buttons = [], header = PLeaf ListItem [(''title'', PStr ''header'')],
      items = replicate n sample_list_item, max_buttons = 2, max_items = 5\<rparr>"

definition sample_dev_event :: EventAPI where
  "sample_dev_event =
     \<lparr>bot_id = PStr ''abc'', api_key = PStr ''key'', event = PStr ''ev'', users = [],
      data = PDict [], params = PDict [], option = PNone, is_devchannel = True,
      max_user = 100\<rparr>"

definition sample_event_user :: pyval where
  "sample_event_user = PEventUser (PStr ''appUserId'') (PStr ''user_id'') PNone"

definition sample_event :: "nat \<Rightarrow> int \<Rightarrow> EventAPI" where
  "sample_event n mx =
     \<lparr>bot_id = PStr ''bot_id'', api_key = PStr ''api_key'', event = PStr ''event_name'',
      users = replicate n sample_event_user, data = PDict [], params = PDict [],
      option = PNone, is_devchannel = False, max_user = mx\<rparr>"

definition sample_button_fields :: kwargs where
  "sample_button_fields =
     [(''label'', PStr ''open''), (''action'', PStr ''webLink''),
      (''web_link_url'', PStr ''https://example.com'')]"

definition sample_item :: pyval where
  "sample_item = PLeaf Item [(''title'', PStr ''a''), (''description'', PStr ''b'')]"

definition sample_item_card :: "pyval list \<Rightarrow> ItemCardComponent" where
  "sample_item_card l =
     \<lparr>buttons = [], item_list = l, ic_thumbnail = PNone, head = PNone, ic_profile = PNone,
      image_title = PNone, item_list_alignment = PNone, item_list_summary = PNone,
      ic_title = PNone, ic_description = PNone, button_layout = PNone\<rparr>"

definition sample_button_unset :: kwargs where
  "sample_button_unset =
     [(''label'', PStr ''open''), (''action'', PStr ''message''),
      (''web_link_url'', PNone), (''message_text'', PStr ''hello'')]"

text \<open>Outcomes of the object comparison: the first element is the target; no element is.\<close>

definition first_is_target :: "nat \<Rightarrow> bool" where
  "first_is_target i = (i = 0)"

definition none_is_target :: "nat \<Rightarrow> bool" where
  "none_is_target i = False"

text \<open>A rendered value is a mapping none of whose keys is bound to \<open>None\<close>; a mapping has a key.\<close>

definition no_none_value :: "pyval \<Rightarrow> bool" where
  "no_none_value r = (case r of PDict m \<Rightarrow> PNone \<notin> snd ` set m | _ \<Rightarrow> False)"

definition has_key :: "string \<Rightarrow> pyval \<Rightarrow> bool" where
  "has_key k r = (case r of PDict m \<Rightarrow> k \<in> fst ` set m | _ \<Rightarrow> False)"

definition sample_basic_card :: BasicCardComponent where
  "sample_basic_card =
     \<lparr>buttons = [],
      bc_thumbnail = PLeaf Thumbnail [(''imageUrl'', PStr ''https://example.com/image.jpg''),
                                      (''link'', PNone)],
      bc_title = PStr ''title'', bc_description = PNone, bc_forwardable = PBool False\<rparr>"

section \<open>Sequencing, loops and \<open>remove_none_item\<close>\<close>

lemma set_AList_update_subset:
  "set (AList.update key val acc) \<subseteq> insert (key, val) (set acc)"
  by (induction acc) auto

lemma fold_remove_none_subset:
  "(k, v) \<in> set (fold (\<lambda>(key, value) out. if value \<noteq> PNone then AList.update key value out else out) base acc)
   \<Longrightarrow> (k, v) \<in> set acc \<or> ((k, v) \<in> set base \<and> v \<noteq> PNone)"
proof (induction base arbitrary: acc)
  case Nil
  then show ?case by simp
next
  case (Cons p base)
  obtain key val where p: "p = (key, val)" by (cases p)
  show ?case
  proof (cases "val = PNone")
    case True
    with Cons p show ?thesis by auto
  next
    case False
    from Cons.prems p False
    have "(k, v) \<in> set (AList.update key val acc) \<or> ((k, v) \<in> set base \<and> v \<noteq> PNone)"
      using Cons.IH [of "AList.update key val acc"] by simp
    moreover have "set (AList.update key val acc) \<subseteq> insert (key, val) (set acc)"
      by (rule set_AList_update_subset)
    ultimately show ?thesis using p False by auto
  qed
qed

lemma remove_none_item_member:
  "(k, v) \<in> set (remove_none_item base) \<Longrightarrow> (k, v) \<in> set base \<and> v \<noteq> PNone"
  unfolding remove_none_item_def using fold_remove_none_subset [of k v base "[]"] by simp

lemma remove_none_item_no_none: "PNone \<notin> snd ` set (remove_none_item base)"
  using remove_none_item_member by force

section \<open>Where \<open>render\<close> validates first\<close>

text \<open>
  \<open>ContextParam.render\<close>, the five cards, \<open>EventAPI.render\<close> and \<open>CheckEventAPI.render\<close>
  call \<open>self.validate()\<close> before they return anything: the error of \<open>validate\<close> is the
  error of \<open>render\<close>.
\<close>

lemma render_validates_first:
  "ContextParam_validate v r = Inl e \<Longrightarrow> ContextParam_render v r = Inl e"
  "TextCardComponent_validate x tc = Inl e \<Longrightarrow> TextCardComponent_render x tc = Inl e"
  "BasicCardComponent_validate x bc = Inl e \<Longrightarrow> BasicCardComponent_render x bc = Inl e"
  "CommerceCardComponent_validate x cc = Inl e \<Longrightarrow> CommerceCardComponent_render x cc = Inl e"
  "ListCardComponent_validate x lc = Inl e \<Longrightarrow> ListCardComponent_render x lc = Inl e"
  "ItemCardComponent_validate x ic = Inl e \<Longrightarrow> ItemCardComponent_render x ic = Inl e"
  "EventAPI_validate x ev = Inl e \<Longrightarrow> EventAPI_render x ev = Inl e"
  "CheckEventAPI_validate ch = Inl e \<Longrightarrow> CheckEventAPI_render ch = Inl e"
  by (simp_all add: ContextParam_render_def TextCardComponent_render_def
      BasicCardComponent_render_def CommerceCardComponent_render_def
      ListCardComponent_render_def ItemCardComponent_render_def EventAPI_render_def
      CheckEventAPI_render_def seq_def Let_def)

text \<open>
  Claim C1: \<open>render()\<close> of every component calls \<open>validate()\<close> first, in particular
  \<open>Context.render()\<close> on a context whose name is not a string. \<open>Context.render\<close> does not
  call \<open>validate\<close>: for \<open>Context(name=5, lifespan=1)\<close> validation raises the
  type-mismatch error and \<open>render()\<close> returns the dictionary with the name 5 in it.
\<close>

theorem C1_context_render_skips_validate:
  "Context_validate (Context_init (PInt 5) (PInt 1) PNone PNone) = Inl InvalidTypeError
   \<and> Context_render (Context_init (PInt 5) (PInt 1) PNone PNone)
       = Inr (PDict [(''name'', PInt 5), (''lifeSpan'', PInt 1)])"
  by (simp add: Context_validate_def Context_render_def Context_init_def validate_str_def
      seq_def bindE_def remove_none_item_def)

section \<open>Context parameters\<close>

lemma ContextParam_render_str: "ContextParam_render (PStr v) (PStr r) = Inr (PStr v)"
  by (simp add: ContextParam_render_def ContextParam_validate_def validate_str_def seq_def)

lemma mapE_render_param:
  "mapE render_param (map (\<lambda>(k, v, r). (k, PContextParam (PStr v) (PStr r))) ps)
     = Inr (map (\<lambda>(k, v, r). (k, PStr v)) ps)"
  by (induction ps) (auto simp: render_param_def ContextParam_render_str bindE_def)

text \<open>
  Claim C8: a \<open>ContextParam\<close> with string \<open>value\<close> and \<open>resolved_value\<close> renders to the
  value alone, and a \<open>Context\<close> renders its parameters as key to value; the resolved value
  occurs nowhere in the output (without parameters the key \<open>params\<close> is left out).
\<close>

theorem C8_context_param_renders_value_only:
  "ContextParam_render (PStr v) (PStr r) = Inr (PStr v)
   \<and> Context_render \<lparr>ctx_name = n, ctx_lifespan = l, ctx_ttl = t,
        ctx_params = PDict (map (\<lambda>(k, v, r). (k, PContextParam (PStr v) (PStr r))) ps)\<rparr>
     = Inr (PDict (remove_none_item
         [(''name'', n), (''lifeSpan'', l), (''ttl'', t),
          (''params'', if ps = [] then PNone else PDict (map (\<lambda>(k, v, r). (k, PStr v)) ps))]))"
  by (simp add: ContextParam_render_str Context_render_def mapE_render_param bindE_def)

text \<open>The example of the class docstring, through the theorem.\<close>

theorem C8_docstring_example:
  "Context_render \<lparr>ctx_name = PStr ''context_name'', ctx_lifespan = PInt 1, ctx_ttl = PInt 600,
        ctx_params = PDict [(''key'', PContextParam (PStr ''value'') (PStr ''resolved_value''))]\<rparr>
     = Inr (PDict [(''name'', PStr ''context_name''), (''lifeSpan'', PInt 1), (''ttl'', PInt 600),
                   (''params'', PDict [(''key'', PStr ''value'')])])"
  using C8_context_param_renders_value_only
    [of "''value''" "''resolved_value''" "PStr ''context_name''" "PInt 1" "PInt 600"
        "[(''key'', ''value'', ''resolved_value'')]"]
  by (simp add: remove_none_item_def)

section \<open>Event API: authorization header and URL\<close>

text \<open>
  Claim C9: the Authorization value is the API key with \<open>KakaoAK \<close> in front unless the key
  starts with it already; \<open>EventAPI.headers\<close> stores the prefixed key, and a second call
  returns the same headers; \<open>CheckEventAPI.headers\<close> is \<open>render\<close>, which prefixes a local
  copy and gives the same value for the key and for the prefixed key.
\<close>

theorem C9_authorization_prefixed_once:
  assumes "api_key e = PStr k" and "task_id c = PStr t" and "chk_api_key c = PStr k"
  shows "EventAPI_headers e
           = Inr (PDict [(''Content-Type'', PStr ''application/json''),
                         (''Authorization'', PStr (spec_authorization k))],
                  e\<lparr>api_key := PStr (spec_authorization k)\<rparr>)
       \<and> EventAPI_headers (e\<lparr>api_key := PStr (spec_authorization k)\<rparr>)
           = Inr (PDict [(''Content-Type'', PStr ''application/json''),
                         (''Authorization'', PStr (spec_authorization k))],
                  e\<lparr>api_key := PStr (spec_authorization k)\<rparr>)
       \<and> CheckEventAPI_headers c = CheckEventAPI_render c
       \<and> CheckEventAPI_render c
           = Inr (PDict [(''Authorization'', PStr (spec_authorization k)),
                         (''Content-Type'', PStr ''application/json'')])
       \<and> CheckEventAPI_render (c\<lparr>chk_api_key := PStr (spec_authorization k)\<rparr>)
           = CheckEventAPI_render c"
  using assms
  by (auto simp: EventAPI_headers_def spec_authorization_def CheckEventAPI_headers_def
      CheckEventAPI_render_def CheckEventAPI_validate_def validate_str_def seq_def Let_def)

theorem C9_authorization_prefixed_once_witness:
  "EventAPI_headers sample_dev_event
     = Inr (PDict [(''Content-Type'', PStr ''application/json''),
                   (''Authorization'', PStr ''KakaoAK key'')],
            sample_dev_event\<lparr>api_key := PStr ''KakaoAK key''\<rparr>)
   \<and> EventAPI_headers (sample_dev_event\<lparr>api_key := PStr ''KakaoAK key''\<rparr>)
     = Inr (PDict [(''Content-Type'', PStr ''application/json''),
                   (''Authorization'', PStr ''KakaoAK key'')],
            sample_dev_event\<lparr>api_key := PStr ''KakaoAK key''\<rparr>)
   \<and> CheckEventAPI_render \<lparr>task_id = PStr ''task'', chk_api_key = PStr ''key''\<rparr>
     = Inr (PDict [(''Authorization'', PStr ''KakaoAK key''),
                   (''Content-Type'', PStr ''application/json'')])"
  using C9_authorization_prefixed_once
    [of sample_dev_event "''key''" "\<lparr>task_id = PStr ''task'', chk_api_key = PStr ''key''\<rparr>"
        "''task''"]
  by (simp add: sample_dev_event_def spec_authorization_def)

text \<open>
  Claim C2, as stated: on the dev channel the marker \<open>!\<close> is stripped from the stored bot
  id and the URL has the stripped id in the place of \<open>{botId}\<close>. For the bot id \<open>abc!\<close>
  the stored id is \<open>abc\<close>, and the URL is not the shape with \<open>abc\<close> substituted.
\<close>

theorem C2_dev_url_counterexample:
  "EventAPI_init (PStr ''abc!'') (PStr ''key'') (PStr ''ev'') None PNone PNone PNone True 100
     = Inr sample_dev_event
   \<and> bot_id sample_dev_event = PStr ''abc''
   \<and> EventAPI_url plain_ext sample_dev_event
       \<noteq> spec_talk_url ''dev-bot-api.kakao.com'' ''abc''"
  by (simp add: EventAPI_init_def bindE_def EventAPI_url_def format_field_def
      spec_talk_url_def sample_dev_event_def)

text \<open>
  Claim C2, amended: on the dev channel a bot id \<open>s!\<close> is stored as \<open>s\<close>, and the URL is
  the dev host's shape with the stored id followed by the marker again, between single
  quotes, in the place of \<open>{botId}\<close>.
\<close>

theorem C2_dev_url_keeps_marker:
  "\<exists>e. EventAPI_init (PStr (s @ ''!'')) k ev us d ps opt True mx = Inr e
       \<and> bot_id e = PStr s
       \<and> EventAPI_url x e
           = ''https://dev-bot-api.kakao.com/v2/bots/'' @ [CHR 0x27] @ s @ ''!'' @ [CHR 0x27]
               @ ''/talk''
       \<and> EventAPI_url x e = spec_talk_url ''dev-bot-api.kakao.com'' ([CHR 0x27] @ s @ ''!'' @ [CHR 0x27])"
  by (simp add: EventAPI_init_def bindE_def EventAPI_url_def format_field_def spec_talk_url_def)

section \<open>Cards\<close>

lemma validate_with_ok:
  "\<forall>v\<in>set vs. (v = PNone \<and> \<not> d) \<or> (v \<noteq> PNone \<and> ok v) \<Longrightarrow> validate_with ok d vs = Inr ()"
  by (induction vs) auto

lemma iterE_ok: "\<forall>v\<in>set vs. f v = Inr () \<Longrightarrow> iterE f vs = Inr ()"
  by (induction vs) auto

lemma iterE_fails: "\<exists>v\<in>set vs. isl (f v) \<Longrightarrow> isl (iterE f vs)"
  by (induction vs) (auto split: sum.splits)

lemma mapE_ok: "\<forall>v\<in>set vs. \<not> isl (f v) \<Longrightarrow> \<not> isl (mapE f vs)"
  by (induction vs) (auto split: sum.splits)

lemma render_list_ok: "\<forall>v\<in>set vs. \<not> isl (call_render x v) \<Longrightarrow> \<not> isl (render_list x vs)"
  using mapE_ok [of vs "call_render x"]
  by (auto simp: render_list_def bindE_def split: sum.splits)

lemma buttons_validate_ok:
  assumes "parent_validate x nm = Inr ()"
    and "\<forall>b\<in>set (buttons c). isinstance x b Button"
  shows "ParentCardComponent_validate x nm c = Inr ()"
proof -
  have "iterE (\<lambda>button. validate_type (\<lambda>v. isinstance x v Button) False [button]) (buttons c) = Inr ()"
  proof (rule iterE_ok, rule ballI)
    fix v assume "v \<in> set (buttons c)"
    with assms(2) have "isinstance x v Button" by blast
    then show "validate_type (\<lambda>v. isinstance x v Button) False [v] = Inr ()"
      by (auto simp: validate_type_def isinstance_def)
  qed
  with assms(1) show ?thesis
    by (simp add: ParentCardComponent_validate_def seq_def)
qed

lemma isinstance_cls_not_None: "isinstance x v k \<Longrightarrow> v \<noteq> PNone"
  by (auto simp: isinstance_def)

lemma ListCard_validate_cases:
  assumes "ParentCardComponent_validate x ''listCard'' c = Inr ()"
  shows "ListCardComponent_validate x c =
     (if length (items c) < 1 then Inl AssertionError
        else if int (length (items c)) > max_items c then Inl AssertionError
        else if int (length (buttons c)) > max_buttons c then Inl AssertionError
        else seq (validate_type (\<lambda>v. isinstance x v ListItem) True [header c])
               (validate_type (\<lambda>v. isinstance x v ListItem) False (items c)))"
  using assms by (simp add: ListCardComponent_validate_def seq_def)

lemma seq_isl: "isl r \<Longrightarrow> isl (seq r k)"
  by (cases r) (simp_all add: seq_def)

lemma ListCard_validate_fails_empty: "items c = [] \<Longrightarrow> isl (ListCardComponent_validate x c)"
  by (cases "ParentCardComponent_validate x ''listCard'' c")
     (simp_all add: ListCardComponent_validate_def seq_def)

lemma ListCard_validate_fails_buttons:
  "int (length (buttons c)) > max_buttons c \<Longrightarrow> isl (ListCardComponent_validate x c)"
  by (cases "ParentCardComponent_validate x ''listCard'' c")
     (simp_all add: ListCardComponent_validate_def seq_def)

lemma ListCard_render_fails: "isl (ListCardComponent_validate x c) \<Longrightarrow> isl (ListCardComponent_render x c)"
  by (simp add: ListCardComponent_render_def seq_isl)

text \<open>
  Claim C5: a \<open>ListCardComponent\<close> with \<open>max_items = 5\<close> and otherwise valid fields fails
  \<open>validate()\<close> and \<open>render()\<close> with 6 items and passes both with exactly 5; any list card
  without items fails, and so does any list card with more buttons than \<open>max_buttons\<close>.
\<close>

theorem C5_list_card_item_cap:
  assumes pv: "parent_validate x ''listCard'' = Inr ()"
    and mi: "max_items c = 5"
    and bs: "\<forall>b\<in>set (buttons c). isinstance x b Button \<and> \<not> isl (call_render x b)"
    and nb: "int (length (buttons c)) \<le> max_buttons c"
    and hdr: "isinstance x (header c) ListItem \<and> \<not> isl (call_render x (header c))"
    and its: "\<forall>i\<in>set (items c). isinstance x i ListItem \<and> \<not> isl (call_render x i)"
  shows "(length (items c) = 6 \<longrightarrow>
            ListCardComponent_validate x c = Inl AssertionError
            \<and> ListCardComponent_render x c = Inl AssertionError)
       \<and> (length (items c) = 5 \<longrightarrow>
            ListCardComponent_validate x c = Inr () \<and> \<not> isl (ListCardComponent_render x c))
       \<and> (items c' = [] \<longrightarrow>
            isl (ListCardComponent_validate x' c') \<and> isl (ListCardComponent_render x' c'))
       \<and> (int (length (buttons c')) > max_buttons c' \<longrightarrow>
            isl (ListCardComponent_validate x' c') \<and> isl (ListCardComponent_render x' c'))"
proof -
  have par: "ParentCardComponent_validate x ''listCard'' c = Inr ()"
    using pv bs by (intro buttons_validate_ok) auto
  note v = ListCard_validate_cases [OF par]
  have six: "length (items c) = 6 \<Longrightarrow> ListCardComponent_validate x c = Inl AssertionError"
    using v mi by simp
  have hdv: "validate_type (\<lambda>v. isinstance x v ListItem) True [header c] = Inr ()"
    using hdr unfolding validate_type_def
    by (intro validate_with_ok) (auto dest: isinstance_cls_not_None)
  have itv: "validate_type (\<lambda>v. isinstance x v ListItem) False (items c) = Inr ()"
    using its unfolding validate_type_def
    by (intro validate_with_ok) (auto dest: isinstance_cls_not_None)
  have five: "length (items c) = 5 \<Longrightarrow> ListCardComponent_validate x c = Inr ()"
    using v mi nb hdv itv by (simp add: seq_def)
  have rl_items: "\<not> isl (render_list x (items c))"
    using its by (intro render_list_ok) auto
  have rl_buttons: "\<not> isl (render_list x (buttons c))"
    using bs by (intro render_list_ok) auto
  have five_r: "length (items c) = 5 \<Longrightarrow> \<not> isl (ListCardComponent_render x c)"
    using five hdr rl_items rl_buttons
    by (auto simp: ListCardComponent_render_def seq_def bindE_def split: sum.splits)
  have six_r: "length (items c) = 6 \<Longrightarrow> ListCardComponent_render x c = Inl AssertionError"
    using six by (simp add: ListCardComponent_render_def seq_def)
  show ?thesis
    using six six_r five five_r ListCard_validate_fails_empty [of c' x']
      ListCard_validate_fails_buttons [of c' x'] ListCard_render_fails [of x' c']
    by blast
qed


theorem C5_list_card_item_cap_witness:
  "ListCardComponent_validate plain_ext (sample_list_card 6) = Inl AssertionError
   \<and> ListCardComponent_render plain_ext (sample_list_card 6) = Inl AssertionError
   \<and> ListCardComponent_validate plain_ext (sample_list_card 5) = Inr ()
   \<and> \<not> isl (ListCardComponent_render plain_ext (sample_list_card 5))
   \<and> isl (ListCardComponent_validate plain_ext (sample_list_card 0))
   \<and> isl (ListCardComponent_validate plain_ext
             ((sample_list_card 1)\<lparr>buttons := replicate 3 (PLeaf Button [])\<rparr>))"
  using C5_list_card_item_cap [of plain_ext "sample_list_card 6" "sample_list_card 0" plain_ext]
    C5_list_card_item_cap [of plain_ext "sample_list_card 5"
      "(sample_list_card 1)\<lparr>buttons := replicate 3 (PLeaf Button [])\<rparr>" plain_ext]
  by (simp add: sample_list_card_def sample_list_item_def plain_ext_def call_render_def
      isinstance_def)

lemma TextCard_both_none_fails:
  "isl (TextCardComponent_validate x \<lparr>buttons = bs, tc_title = PNone, tc_description = PNone\<rparr>)"
  by (cases "ParentCardComponent_validate x ''textCard''
               \<lparr>buttons = bs, tc_title = PNone, tc_description = PNone\<rparr>")
     (simp_all add: TextCardComponent_validate_def seq_def)

text \<open>
  Claim C6: a \<open>TextCardComponent\<close> with neither title nor description fails \<open>validate()\<close>
  and \<open>render()\<close>; with exactly one of them a string and no buttons, \<open>render()\<close> returns
  the dictionary holding that one field under its own key and no other key.
\<close>

theorem C6_text_card_title_or_description:
  assumes "parent_validate x ''textCard'' = Inr ()"
  shows "isl (TextCardComponent_validate x' \<lparr>buttons = bs, tc_title = PNone, tc_description = PNone\<rparr>)
       \<and> isl (TextCardComponent_render x' \<lparr>buttons = bs, tc_title = PNone, tc_description = PNone\<rparr>)
       \<and> TextCardComponent_validate x \<lparr>buttons = [], tc_title = PNone, tc_description = PNone\<rparr>
           = Inl ValueError
       \<and> TextCardComponent_render x \<lparr>buttons = [], tc_title = PStr t, tc_description = PNone\<rparr>
           = Inr (PDict [(''title'', PStr t)])
       \<and> TextCardComponent_render x \<lparr>buttons = [], tc_title = PNone, tc_description = PStr d\<rparr>
           = Inr (PDict [(''description'', PStr d)])"
proof -
  have v: "isl (TextCardComponent_validate x' \<lparr>buttons = bs, tc_title = PNone, tc_description = PNone\<rparr>)"
    by (rule TextCard_both_none_fails)
  then have r: "isl (TextCardComponent_render x' \<lparr>buttons = bs, tc_title = PNone, tc_description = PNone\<rparr>)"
    by (simp add: TextCardComponent_render_def seq_isl)
  have rest: "TextCardComponent_validate x \<lparr>buttons = [], tc_title = PNone, tc_description = PNone\<rparr>
           = Inl ValueError
       \<and> TextCardComponent_render x \<lparr>buttons = [], tc_title = PStr t, tc_description = PNone\<rparr>
           = Inr (PDict [(''title'', PStr t)])
       \<and> TextCardComponent_render x \<lparr>buttons = [], tc_title = PNone, tc_description = PStr d\<rparr>
           = Inr (PDict [(''description'', PStr d)])"
    using assms
    by (simp add: TextCardComponent_render_def TextCardComponent_validate_def
      ParentCardComponent_validate_def validate_str_def render_list_def remove_none_item_def
      seq_def bindE_def)
  from v r rest show ?thesis by blast
qed

theorem C6_text_card_title_or_description_witness:
  "parent_validate plain_ext ''textCard'' = Inr ()
   \<and> TextCardComponent_validate plain_ext \<lparr>buttons = [], tc_title = PNone, tc_description = PNone\<rparr>
       = Inl ValueError
   \<and> TextCardComponent_render plain_ext
        \<lparr>buttons = [], tc_title = PStr ''title only'', tc_description = PNone\<rparr>
       = Inr (PDict [(''title'', PStr ''title only'')])
   \<and> TextCardComponent_render plain_ext
        \<lparr>buttons = [], tc_title = PNone, tc_description = PStr ''description only''\<rparr>
       = Inr (PDict [(''description'', PStr ''description only'')])"
proof -
  have h: "parent_validate plain_ext ''textCard'' = Inr ()"
    by (simp add: plain_ext_def)
  show ?thesis
    using h C6_text_card_title_or_description
      [OF h, of plain_ext "[]" "''title only''" "''description only''"]
    by simp
qed

section \<open>Dual-mode add operations\<close>

text \<open>
  Claim C4: \<open>add_item\<close> with the raw constructor fields of a \<open>ListItem\<close> and \<open>add_item\<close> with
  the item those fields build (positionally or as keyword \<open>item\<close>) give the same card, which
  is the card with the item appended, and so the same rendered output; likewise
  \<open>add_button\<close> on any card. Raw fields are arguments that the constructor accepts and that
  are not themselves the pre-built forms: not one positional \<open>ListItem\<close> (\<open>Button\<close>), and
  not a keyword \<open>item\<close> (\<open>button\<close>) without positional arguments.
\<close>

theorem C4_dual_mode_add:
  assumes "leaf_init x ListItem args kw = Inr a"
    and "\<not> (length args = 1 \<and> isinstance x (hd args) ListItem)"
    and "\<not> (args = [] \<and> map_of kw ''item'' \<noteq> None)"
    and "leaf_init x Button bargs bkw = Inr b"
    and "\<not> (length bargs = 1 \<and> isinstance x (hd bargs) Button)"
    and "\<not> (bargs = [] \<and> map_of bkw ''button'' \<noteq> None)"
  shows "add_item x args kw c = Inr (c\<lparr>items := items c @ [PLeaf ListItem a]\<rparr>)
       \<and> add_item x [PLeaf ListItem a] [] c = add_item x args kw c
       \<and> add_item x [] [(''item'', PLeaf ListItem a)] c = add_item x args kw c
       \<and> bindE (add_item x [PLeaf ListItem a] [] c) (ListCardComponent_render x)
           = bindE (add_item x args kw c) (ListCardComponent_render x)
       \<and> add_button x bargs bkw p = Inr (p\<lparr>buttons := buttons p @ [PLeaf Button b]\<rparr>)
       \<and> add_button x [PLeaf Button b] [] p = add_button x bargs bkw p
       \<and> add_button x [] [(''button'', PLeaf Button b)] p = add_button x bargs bkw p
       \<and> bindE (add_button x [PLeaf Button b] [] c) (ListCardComponent_render x)
           = bindE (add_button x bargs bkw c) (ListCardComponent_render x)"
proof -
  have i1: "add_item x args kw c = Inr (c\<lparr>items := items c @ [PLeaf ListItem a]\<rparr>)"
    using assms(1,2,3) by (auto simp: add_item_def bindE_def split: option.splits)
  have i2: "add_item x [PLeaf ListItem a] [] c = Inr (c\<lparr>items := items c @ [PLeaf ListItem a]\<rparr>)"
    by (simp add: add_item_def isinstance_def)
  have i3: "add_item x [] [(''item'', PLeaf ListItem a)] c
              = Inr (c\<lparr>items := items c @ [PLeaf ListItem a]\<rparr>)"
    by (simp add: add_item_def isinstance_def)
  have b1: "add_button x bargs bkw p = Inr (p\<lparr>buttons := buttons p @ [PLeaf Button b]\<rparr>)"
    using assms(4,5,6) by (auto simp: add_button_def bindE_def split: option.splits)
  have b2: "add_button x [PLeaf Button b] [] p = Inr (p\<lparr>buttons := buttons p @ [PLeaf Button b]\<rparr>)"
    by (simp add: add_button_def isinstance_def)
  have b3: "add_button x [] [(''button'', PLeaf Button b)] p
              = Inr (p\<lparr>buttons := buttons p @ [PLeaf Button b]\<rparr>)"
    by (simp add: add_button_def isinstance_def)
  have c1: "add_button x bargs bkw c = Inr (c\<lparr>buttons := buttons c @ [PLeaf Button b]\<rparr>)"
    using assms(4,5,6) by (auto simp: add_button_def bindE_def split: option.splits)
  have c2: "add_button x [PLeaf Button b] [] c = Inr (c\<lparr>buttons := buttons c @ [PLeaf Button b]\<rparr>)"
    by (simp add: add_button_def isinstance_def)
  show ?thesis
    unfolding i1 i2 i3 b1 b2 b3 c1 c2 by simp
qed

theorem C4_dual_mode_add_witness:
  "add_item plain_ext [] [(''title'', PStr ''item''), (''description'', PNone)] (sample_list_card 1)
     = add_item plain_ext [sample_list_item] [] (sample_list_card 1)
   \<and> add_item plain_ext [sample_list_item] [] (sample_list_card 1) = Inr (sample_list_card 2)
   \<and> add_button plain_ext [] sample_button_fields (sample_list_card 1)
     = add_button plain_ext [PLeaf Button sample_button_fields] [] (sample_list_card 1)
   \<and> bindE (add_button plain_ext [] sample_button_fields (sample_list_card 1))
        (ListCardComponent_render plain_ext)
     = bindE (add_button plain_ext [PLeaf Button sample_button_fields] [] (sample_list_card 1))
        (ListCardComponent_render plain_ext)"
  using C4_dual_mode_add
    [of plain_ext "[]" "[(''title'', PStr ''item''), (''description'', PNone)]"
        "[(''title'', PStr ''item''), (''description'', PNone)]"
        "[]" sample_button_fields sample_button_fields
        "sample_list_card 1" "sample_list_card 1"]
  by (simp add: plain_ext_def sample_button_fields_def sample_list_item_def
      sample_list_card_def numeral_2_eq_2)

section \<open>Event API: the user list\<close>

text \<open>
  Claim C7, as stated: with string \<open>bot_id\<close>, \<open>api_key\<close> and \<open>event\<close>, \<open>validate()\<close> succeeds
  when the list holds exactly \<open>max_user\<close> valid users. With \<open>max_user = 0\<close> the list of
  exactly \<open>max_user\<close> users is the empty list, which the first check rejects; and one
  valid user under \<open>max_user = 1\<close> is rejected when \<open>option\<close> is the string \<open>x\<close>.
\<close>

theorem C7_zero_cap_counterexample:
  "int (length (users (sample_event 0 0))) = max_user (sample_event 0 0)
   \<and> EventAPI_validate plain_ext (sample_event 0 0) = Inl AssertionError
   \<and> users ((sample_event 1 1)\<lparr>option := PStr ''x''\<rparr>) = [sample_event_user]
   \<and> call_validate plain_ext sample_event_user = Inr ()
   \<and> EventAPI_validate plain_ext ((sample_event 1 1)\<lparr>option := PStr ''x''\<rparr>)
       = Inl InvalidTypeError"
  by (simp add: sample_event_def sample_event_user_def EventAPI_validate_def
      EventUser_validate_def EventUser_type_list_def call_validate_def validate_str_def
      validate_type_def seq_def)

lemma EventAPI_validate_strings:
  assumes "bot_id e = PStr b" and "api_key e = PStr k" and "event e = PStr ev"
  shows "EventAPI_validate x e =
       (if users e = [] then Inl AssertionError
        else if int (length (users e)) > max_user e then Inl AssertionError
        else seq (iterE (call_validate x) (users e))
               (validate_type is_dict False [params e, option e, data e]))"
  using assms by (simp add: EventAPI_validate_def validate_str_def seq_def)

text \<open>
  Claim C7, amended: with string \<open>bot_id\<close>, \<open>api_key\<close> and \<open>event\<close>, \<open>validate()\<close> fails on
  an empty user list, fails on a list longer than \<open>max_user\<close>, fails when a contained user
  fails its own validation, and succeeds on a non-empty list of exactly \<open>max_user\<close> valid
  \<open>EventUser\<close> objects when \<open>params\<close>, \<open>option\<close> and \<open>data\<close> are each a dictionary or \<open>None\<close>.
\<close>

theorem C7_event_user_count:
  assumes "bot_id e = PStr b" and "api_key e = PStr k" and "event e = PStr ev"
  shows "(users e = [] \<longrightarrow> EventAPI_validate x e = Inl AssertionError)
       \<and> (int (length (users e)) > max_user e \<longrightarrow> EventAPI_validate x e = Inl AssertionError)
       \<and> ((\<exists>u\<in>set (users e). isl (call_validate x u)) \<longrightarrow> isl (EventAPI_validate x e))
       \<and> (users e \<noteq> [] \<and> int (length (users e)) = max_user e
            \<and> (\<forall>u\<in>set (users e). \<exists>t i p. u = PEventUser t i p \<and> EventUser_validate t i p = Inr ())
            \<and> (\<forall>v\<in>{params e, option e, data e}. v = PNone \<or> is_dict v)
          \<longrightarrow> EventAPI_validate x e = Inr ())"
proof -
  note v = EventAPI_validate_strings [OF assms, of x]
  have a: "users e = [] \<longrightarrow> EventAPI_validate x e = Inl AssertionError"
    using v by simp
  have b: "int (length (users e)) > max_user e \<longrightarrow> EventAPI_validate x e = Inl AssertionError"
    using v by simp
  have c: "(\<exists>u\<in>set (users e). isl (call_validate x u)) \<longrightarrow> isl (EventAPI_validate x e)"
  proof
    assume "\<exists>u\<in>set (users e). isl (call_validate x u)"
    then have "isl (iterE (call_validate x) (users e))" by (rule iterE_fails)
    then have "isl (seq (iterE (call_validate x) (users e))
                 (validate_type is_dict False [params e, option e, data e]))"
      by (rule seq_isl)
    then show "isl (EventAPI_validate x e)" using v by simp
  qed
  have d: "users e \<noteq> [] \<and> int (length (users e)) = max_user e
            \<and> (\<forall>u\<in>set (users e). \<exists>t i p. u = PEventUser t i p \<and> EventUser_validate t i p = Inr ())
            \<and> (\<forall>v\<in>{params e, option e, data e}. v = PNone \<or> is_dict v)
          \<longrightarrow> EventAPI_validate x e = Inr ()"
  proof
    assume h: "users e \<noteq> [] \<and> int (length (users e)) = max_user e
            \<and> (\<forall>u\<in>set (users e). \<exists>t i p. u = PEventUser t i p \<and> EventUser_validate t i p = Inr ())
            \<and> (\<forall>v\<in>{params e, option e, data e}. v = PNone \<or> is_dict v)"
    have "\<forall>u\<in>set (users e). call_validate x u = Inr ()"
      using h by (auto simp: call_validate_def)
    then have i: "iterE (call_validate x) (users e) = Inr ()" by (rule iterE_ok)
    have t: "validate_type is_dict False [params e, option e, data e] = Inr ()"
      unfolding validate_type_def using h by (intro validate_with_ok) auto
    show "EventAPI_validate x e = Inr ()"
      using v h i t by (simp add: seq_def)
  qed
  from a b c d show ?thesis by blast
qed

theorem C7_event_user_count_witness:
  "EventAPI_validate plain_ext (sample_event 0 100) = Inl AssertionError
   \<and> EventAPI_validate plain_ext (sample_event 101 100) = Inl AssertionError
   \<and> EventAPI_validate plain_ext (sample_event 100 100) = Inr ()
   \<and> isl (EventAPI_validate plain_ext
            ((sample_event 2 100)\<lparr>users := [sample_event_user, PEventUser (PStr ''other'') (PStr ''id'') PNone]\<rparr>))"
  using C7_event_user_count [of "sample_event 0 100" "''bot_id''" "''api_key''" "''event_name''" plain_ext]
    C7_event_user_count [of "sample_event 101 100" "''bot_id''" "''api_key''" "''event_name''" plain_ext]
    C7_event_user_count [of "sample_event 100 100" "''bot_id''" "''api_key''" "''event_name''" plain_ext]
    C7_event_user_count [of "(sample_event 2 100)\<lparr>users := [sample_event_user, PEventUser (PStr ''other'') (PStr ''id'') PNone]\<rparr>"
       "''bot_id''" "''api_key''" "''event_name''" plain_ext]
  by (simp add: sample_event_def sample_event_user_def EventUser_validate_def
      EventUser_type_list_def validate_str_def validate_type_def seq_def call_validate_def)

section \<open>Removing an item from an item card\<close>

text \<open>
  The first test is \<open>isinstance(args[0], Item)\<close>: an instance of a class declared a subclass
  of \<open>Item\<close> takes the positional arm, whatever the keywords.
\<close>

lemma subclass_instance_takes_positional_arm:
  "is_subclass x k Item \<Longrightarrow> remove_item_arm x (PLeaf k a # rest) kw = PosItem"
  by (simp add: remove_item_arm_def isinstance_def)

text \<open>
  Claim C10, as stated: the keyword arms of \<open>ItemCardComponent.remove_item\<close> are unreachable.
  A call with a first positional argument that is neither an \<open>Item\<close> nor an \<open>int\<close> reaches
  them: \<open>remove_item(None, item=it)\<close> removes \<open>it\<close>, \<open>remove_item('x', index=0)\<close> pops.
\<close>

theorem C10_keyword_arm_reached:
  "remove_item_arm plain_ext [PNone] [(''item'', sample_item)] = KwItem
   \<and> remove_item plain_ext first_is_target [PNone] [(''item'', sample_item)]
         (sample_item_card [sample_item])
       = Inr (sample_item_card [])
   \<and> remove_item_arm plain_ext [PStr ''x''] [(''index'', PInt 0)] = KwIndex
   \<and> remove_item plain_ext none_is_target [PStr ''x''] [(''index'', PInt 0)]
         (sample_item_card [sample_item])
       = Inr (sample_item_card [])"
  by (simp add: remove_item_arm_def remove_item_def list_remove_def list_pop_def
      ssize_t_max_def isinstance_def first_is_target_def set_item_list_def bindE_def
      sample_item_card_def sample_item_def)

text \<open>
  Claim C10, amended: \<open>remove_item\<close> reads \<open>args[0]\<close> first, so every call without
  positional arguments raises \<open>IndexError\<close>, whatever the keywords; the keyword arms are
  reached exactly by the calls whose first positional argument is neither an \<open>Item\<close> (nor
  an instance of a subclass of it) nor an \<open>int\<close> and that carry the keyword \<open>item\<close> or
  \<open>index\<close>.
\<close>

theorem C10_remove_item_without_positional:
  "remove_item x same [] kw c = Inl IndexError
   \<and> remove_item_arm x [] kw = RaisesIndexError
   \<and> (remove_item_arm x args kw \<in> {KwItem, KwIndex}
        \<longleftrightarrow> args \<noteq> [] \<and> \<not> isinstance x (hd args) Item \<and> \<not> is_int (hd args)
            \<and> (map_of kw ''item'' \<noteq> None \<or> map_of kw ''index'' \<noteq> None))"
  by (cases args) (auto simp: remove_item_def remove_item_arm_def)

theorem C10_remove_item_without_positional_witness:
  "remove_item plain_ext first_is_target [] [(''item'', sample_item)]
       (sample_item_card [sample_item]) = Inl IndexError
   \<and> remove_item plain_ext none_is_target [] [(''index'', PInt 0)]
       (sample_item_card [sample_item]) = Inl IndexError
   \<and> remove_item_arm plain_ext [PNone] [(''item'', sample_item)] \<in> {KwItem, KwIndex}"
  using C10_remove_item_without_positional
      [of plain_ext first_is_target "[(''item'', sample_item)]" "sample_item_card [sample_item]"
          "[PNone]"]
    C10_remove_item_without_positional
      [of plain_ext none_is_target "[(''index'', PInt 0)]" "sample_item_card [sample_item]"
          "[PNone]"]
  by (simp add: isinstance_def)

section \<open>No key bound to \<open>None\<close>\<close>

lemma no_none_remove_none_item: "no_none_value (PDict (remove_none_item base))"
  by (simp add: no_none_value_def remove_none_item_no_none)

lemma remove_none_item_absent:
  "\<forall>v. (k, v) \<in> set base \<longrightarrow> v = PNone \<Longrightarrow> k \<notin> fst ` set (remove_none_item base)"
  using remove_none_item_member by fastforce

lemma absent_key:
  assumes "r = PDict (remove_none_item base)" and "\<forall>v. (k, v) \<in> set base \<longrightarrow> v = PNone"
  shows "\<not> has_key k r"
  using assms remove_none_item_absent [of k base] by (simp add: has_key_def)

lemma render_list_Nil: "render_list x [] = Inr PNone"
  by (simp add: render_list_def)

lemma render_opt_falsy: "\<not> truthy v \<Longrightarrow> render_opt x v = Inr PNone"
  by (simp add: render_opt_def)

lemma TextCard_unset_absent:
  "TextCardComponent_render x c = Inr r \<longrightarrow>
     no_none_value r
     \<and> (tc_title c = PNone \<longrightarrow> \<not> has_key ''title'' r)
     \<and> (tc_description c = PNone \<longrightarrow> \<not> has_key ''description'' r)
     \<and> (buttons c = [] \<longrightarrow> \<not> has_key ''buttons'' r)"
proof
  assume a: "TextCardComponent_render x c = Inr r"
  then obtain bs where bs: "render_list x (buttons c) = Inr bs"
    and r: "r = PDict (remove_none_item
                [(''title'', tc_title c), (''description'', tc_description c),
                 (''buttons'', bs)])"
    by (auto simp: TextCardComponent_render_def seq_def bindE_def split: sum.splits)
  have n: "no_none_value r" unfolding r by (rule no_none_remove_none_item)
  have t: "tc_title c = PNone \<longrightarrow> \<not> has_key ''title'' r"
    by (rule impI, rule absent_key [OF r]) simp
  have d: "tc_description c = PNone \<longrightarrow> \<not> has_key ''description'' r"
    by (rule impI, rule absent_key [OF r]) simp
  have b: "buttons c = [] \<longrightarrow> \<not> has_key ''buttons'' r"
    using bs by (intro impI absent_key [OF r]) (simp add: render_list_Nil)
  from n t d b
  show "no_none_value r
     \<and> (tc_title c = PNone \<longrightarrow> \<not> has_key ''title'' r)
     \<and> (tc_description c = PNone \<longrightarrow> \<not> has_key ''description'' r)
     \<and> (buttons c = [] \<longrightarrow> \<not> has_key ''buttons'' r)"
    by blast
qed

lemma BasicCard_render_shape:
  "BasicCardComponent_render x c = Inr r \<Longrightarrow>
   \<exists>th bs. render_list x (buttons c) = Inr bs
     \<and> r = PDict (remove_none_item
                [(''thumbnail'', th), (''title'', bc_title c),
                 (''description'', bc_description c), (''buttons'', bs),
                 (''forwardable'',
                    if truthy (bc_forwardable c) then bc_forwardable c else PNone)])"
  by (cases "truthy (bc_forwardable c)")
     (fastforce simp: BasicCardComponent_render_def seq_def bindE_def split: sum.splits)+

lemma BasicCard_unset_absent:
  "BasicCardComponent_render x c = Inr r \<longrightarrow>
     no_none_value r
     \<and> (bc_title c = PNone \<longrightarrow> \<not> has_key ''title'' r)
     \<and> (bc_description c = PNone \<longrightarrow> \<not> has_key ''description'' r)
     \<and> (buttons c = [] \<longrightarrow> \<not> has_key ''buttons'' r)
     \<and> (\<not> truthy (bc_forwardable c) \<longrightarrow> \<not> has_key ''forwardable'' r)"
proof
  assume a: "BasicCardComponent_render x c = Inr r"
  from BasicCard_render_shape [OF a]
  obtain th bs where bs: "render_list x (buttons c) = Inr bs"
    and r: "r = PDict (remove_none_item
                [(''thumbnail'', th), (''title'', bc_title c),
                 (''description'', bc_description c), (''buttons'', bs),
                 (''forwardable'',
                    if truthy (bc_forwardable c) then bc_forwardable c else PNone)])"
    by auto
  have n: "no_none_value r" unfolding r by (rule no_none_remove_none_item)
  have t: "bc_title c = PNone \<longrightarrow> \<not> has_key ''title'' r"
    by (rule impI, rule absent_key [OF r]) simp
  have d: "bc_description c = PNone \<longrightarrow> \<not> has_key ''description'' r"
    by (rule impI, rule absent_key [OF r]) simp
  have b: "buttons c = [] \<longrightarrow> \<not> has_key ''buttons'' r"
    using bs by (intro impI absent_key [OF r]) (simp add: render_list_Nil)
  have f: "\<not> truthy (bc_forwardable c) \<longrightarrow> \<not> has_key ''forwardable'' r"
    by (rule impI, rule absent_key [OF r]) simp
  from n t d b f
  show "no_none_value r
     \<and> (bc_title c = PNone \<longrightarrow> \<not> has_key ''title'' r)
     \<and> (bc_description c = PNone \<longrightarrow> \<not> has_key ''description'' r)
     \<and> (buttons c = [] \<longrightarrow> \<not> has_key ''buttons'' r)
     \<and> (\<not> truthy (bc_forwardable c) \<longrightarrow> \<not> has_key ''forwardable'' r)"
    by blast
qed

lemma CommerceCard_unset_absent:
  "CommerceCardComponent_render x c = Inr r \<longrightarrow>
     no_none_value r
     \<and> (cc_title c = PNone \<longrightarrow> \<not> has_key ''title'' r)
     \<and> (cc_description c = PNone \<longrightarrow> \<not> has_key ''description'' r)
     \<and> (currency c = PNone \<longrightarrow> \<not> has_key ''currency'' r)
     \<and> (discount c = PNone \<longrightarrow> \<not> has_key ''discount'' r)
     \<and> (discount_rate c = PNone \<longrightarrow> \<not> has_key ''discountRate'' r)
     \<and> (discount_price c = PNone \<longrightarrow> \<not> has_key ''discountPrice'' r)
     \<and> (\<not> truthy (cc_profile c) \<longrightarrow> \<not> has_key ''profile'' r)
     \<and> (buttons c = [] \<longrightarrow> \<not> has_key ''buttons'' r)"
proof
  assume a: "CommerceCardComponent_render x c = Inr r"
  then obtain ths pr bs where pr: "render_opt x (cc_profile c) = Inr pr"
    and bs: "render_list x (buttons c) = Inr bs"
    and r: "r = PDict (remove_none_item
                   [(''price'', price c), (''thumbnails'', PList ths),
                    (''title'', cc_title c), (''description'', cc_description c),
                    (''currency'', currency c), (''discount'', discount c),
                    (''discountRate'', discount_rate c),
                    (''discountPrice'', discount_price c),
                    (''profile'', pr), (''buttons'', bs)])"
    by (auto simp: CommerceCardComponent_render_def seq_def bindE_def split: sum.splits)
  have n: "no_none_value r" unfolding r by (rule no_none_remove_none_item)
  have t: "cc_title c = PNone \<longrightarrow> \<not> has_key ''title'' r"
    by (rule impI, rule absent_key [OF r]) simp
  have d: "cc_description c = PNone \<longrightarrow> \<not> has_key ''description'' r"
    by (rule impI, rule absent_key [OF r]) simp
  have cu: "currency c = PNone \<longrightarrow> \<not> has_key ''currency'' r"
    by (rule impI, rule absent_key [OF r]) simp
  have di: "discount c = PNone \<longrightarrow> \<not> has_key ''discount'' r"
    by (rule impI, rule absent_key [OF r]) simp
  have dr: "discount_rate c = PNone \<longrightarrow> \<not> has_key ''discountRate'' r"
    by (rule impI, rule absent_key [OF r]) simp
  have dp: "discount_price c = PNone \<longrightarrow> \<not> has_key ''discountPrice'' r"
    by (rule impI, rule absent_key [OF r]) simp
  have p: "\<not> truthy (cc_profile c) \<longrightarrow> \<not> has_key ''profile'' r"
    using pr by (intro impI absent_key [OF r]) (simp add: render_opt_falsy)
  have b: "buttons c = [] \<longrightarrow> \<not> has_key ''buttons'' r"
    using bs by (intro impI absent_key [OF r]) (simp add: render_list_Nil)
  from n t d cu di dr dp p b
  show "no_none_value r
     \<and> (cc_title c = PNone \<longrightarrow> \<not> has_key ''title'' r)
     \<and> (cc_description c = PNone \<longrightarrow> \<not> has_key ''description'' r)
     \<and> (currency c = PNone \<longrightarrow> \<not> has_key ''currency'' r)
     \<and> (discount c = PNone \<longrightarrow> \<not> has_key ''discount'' r)
     \<and> (discount_rate c = PNone \<longrightarrow> \<not> has_key ''discountRate'' r)
     \<and> (discount_price c = PNone \<longrightarrow> \<not> has_key ''discountPrice'' r)
     \<and> (\<not> truthy (cc_profile c) \<longrightarrow> \<not> has_key ''profile'' r)
     \<and> (buttons c = [] \<longrightarrow> \<not> has_key ''buttons'' r)"
    by blast
qed

lemma ListCard_unset_absent:
  "ListCardComponent_render x c = Inr r \<longrightarrow>
     no_none_value r \<and> (buttons c = [] \<longrightarrow> \<not> has_key ''buttons'' r)"
proof
  assume a: "ListCardComponent_render x c = Inr r"
  then obtain hd_r its bs where bs: "render_list x (buttons c) = Inr bs"
    and r: "r = PDict (remove_none_item
                   [(''header'', hd_r), (''items'', its), (''buttons'', bs)])"
    by (auto simp: ListCardComponent_render_def seq_def bindE_def split: sum.splits)
  have n: "no_none_value r" unfolding r by (rule no_none_remove_none_item)
  have b: "buttons c = [] \<longrightarrow> \<not> has_key ''buttons'' r"
    using bs by (intro impI absent_key [OF r]) (simp add: render_list_Nil)
  from n b show "no_none_value r \<and> (buttons c = [] \<longrightarrow> \<not> has_key ''buttons'' r)"
    by blast
qed

lemma ItemCard_render_shape:
  "ItemCardComponent_render x c = Inr r \<Longrightarrow>
   \<exists>th pr im its su bs.
     render_opt x (ic_thumbnail c) = Inr th \<and> render_opt x (ic_profile c) = Inr pr
     \<and> render_opt x (image_title c) = Inr im \<and> render_opt x (item_list_summary c) = Inr su
     \<and> render_list x (buttons c) = Inr bs
     \<and> r = PDict (remove_none_item
                            [(''thumbnail'', th),
                             (''head'', if truthy (head c)
                                        then PDict [(''title'', head c)] else PNone),
                             (''profile'', pr), (''imageTitle'', im),
                             (''itemList'', PList its),
                             (''itemListAlignment'', item_list_alignment c),
                             (''itemListSummary'', su),
                             (''title'', ic_title c), (''description'', ic_description c),
                             (''buttonLayout'', button_layout c),
                             (''buttons'', bs)])"
  by (cases "truthy (head c)")
     (fastforce simp: ItemCardComponent_render_def seq_def bindE_def split: sum.splits)+

lemma ItemCard_unset_absent:
  "ItemCardComponent_render x c = Inr r \<longrightarrow>
     no_none_value r
     \<and> (\<not> truthy (ic_thumbnail c) \<longrightarrow> \<not> has_key ''thumbnail'' r)
     \<and> (\<not> truthy (head c) \<longrightarrow> \<not> has_key ''head'' r)
     \<and> (\<not> truthy (ic_profile c) \<longrightarrow> \<not> has_key ''profile'' r)
     \<and> (\<not> truthy (image_title c) \<longrightarrow> \<not> has_key ''imageTitle'' r)
     \<and> (item_list_alignment c = PNone \<longrightarrow> \<not> has_key ''itemListAlignment'' r)
     \<and> (\<not> truthy (item_list_summary c) \<longrightarrow> \<not> has_key ''itemListSummary'' r)
     \<and> (ic_title c = PNone \<longrightarrow> \<not> has_key ''title'' r)
     \<and> (ic_description c = PNone \<longrightarrow> \<not> has_key ''description'' r)
     \<and> (button_layout c = PNone \<longrightarrow> \<not> has_key ''buttonLayout'' r)
     \<and> (buttons c = [] \<longrightarrow> \<not> has_key ''buttons'' r)"
proof
  assume a: "ItemCardComponent_render x c = Inr r"
  from ItemCard_render_shape [OF a]
  obtain th pr im its su bs where th: "render_opt x (ic_thumbnail c) = Inr th"
    and pr: "render_opt x (ic_profile c) = Inr pr"
    and im: "render_opt x (image_title c) = Inr im"
    and su: "render_opt x (item_list_summary c) = Inr su"
    and bs: "render_list x (buttons c) = Inr bs"
    and r: "r = PDict (remove_none_item
                            [(''thumbnail'', th),
                             (''head'', if truthy (head c)
                                        then PDict [(''title'', head c)] else PNone),
                             (''profile'', pr), (''imageTitle'', im),
                             (''itemList'', PList its),
                             (''itemListAlignment'', item_list_alignment c),
                             (''itemListSummary'', su),
                             (''title'', ic_title c), (''description'', ic_description c),
                             (''buttonLayout'', button_layout c),
                             (''buttons'', bs)])"
    by blast
  have n: "no_none_value r" unfolding r by (rule no_none_remove_none_item)
  have f1: "\<not> truthy (ic_thumbnail c) \<longrightarrow> \<not> has_key ''thumbnail'' r"
    using th by (intro impI absent_key [OF r]) (simp add: render_opt_falsy)
  have f2: "\<not> truthy (head c) \<longrightarrow> \<not> has_key ''head'' r"
    by (rule impI, rule absent_key [OF r]) simp
  have f3: "\<not> truthy (ic_profile c) \<longrightarrow> \<not> has_key ''profile'' r"
    using pr by (intro impI absent_key [OF r]) (simp add: render_opt_falsy)
  have f4: "\<not> truthy (image_title c) \<longrightarrow> \<not> has_key ''imageTitle'' r"
    using im by (intro impI absent_key [OF r]) (simp add: render_opt_falsy)
  have f5: "item_list_alignment c = PNone \<longrightarrow> \<not> has_key ''itemListAlignment'' r"
    by (rule impI, rule absent_key [OF r]) simp
  have f6: "\<not> truthy (item_list_summary c) \<longrightarrow> \<not> has_key ''itemListSummary'' r"
    using su by (intro impI absent_key [OF r]) (simp add: render_opt_falsy)
  have f7: "ic_title c = PNone \<longrightarrow> \<not> has_key ''title'' r"
    by (rule impI, rule absent_key [OF r]) simp
  have f8: "ic_description c = PNone \<longrightarrow> \<not> has_key ''description'' r"
    by (rule impI, rule absent_key [OF r]) simp
  have f9: "button_layout c = PNone \<longrightarrow> \<not> has_key ''buttonLayout'' r"
    by (rule impI, rule absent_key [OF r]) simp
  have f10: "buttons c = [] \<longrightarrow> \<not> has_key ''buttons'' r"
    using bs by (intro impI absent_key [OF r]) (simp add: render_list_Nil)
  from n f1 f2 f3 f4 f5 f6 f7 f8 f9 f10
  show "no_none_value r
     \<and> (\<not> truthy (ic_thumbnail c) \<longrightarrow> \<not> has_key ''thumbnail'' r)
     \<and> (\<not> truthy (head c) \<longrightarrow> \<not> has_key ''head'' r)
     \<and> (\<not> truthy (ic_profile c) \<longrightarrow> \<not> has_key ''profile'' r)
     \<and> (\<not> truthy (image_title c) \<longrightarrow> \<not> has_key ''imageTitle'' r)
     \<and> (item_list_alignment c = PNone \<longrightarrow> \<not> has_key ''itemListAlignment'' r)
     \<and> (\<not> truthy (item_list_summary c) \<longrightarrow> \<not> has_key ''itemListSummary'' r)
     \<and> (ic_title c = PNone \<longrightarrow> \<not> has_key ''title'' r)
     \<and> (ic_description c = PNone \<longrightarrow> \<not> has_key ''description'' r)
     \<and> (button_layout c = PNone \<longrightarrow> \<not> has_key ''buttonLayout'' r)
     \<and> (buttons c = [] \<longrightarrow> \<not> has_key ''buttons'' r)"
    by blast
qed

lemma EventUser_unset_absent:
  "EventUser_render t i p = Inr r \<longrightarrow>
     no_none_value r \<and> (p = PNone \<longrightarrow> \<not> has_key ''properties'' r)"
proof
  assume "EventUser_render t i p = Inr r"
  then have r: "r = PDict (remove_none_item
                  [(''type'', t), (''id'', i), (''properties'', p)])"
    by (auto simp: EventUser_render_def)
  have n: "no_none_value r" unfolding r by (rule no_none_remove_none_item)
  have q: "p = PNone \<longrightarrow> \<not> has_key ''properties'' r"
    by (rule impI, rule absent_key [OF r]) simp
  from n q show "no_none_value r \<and> (p = PNone \<longrightarrow> \<not> has_key ''properties'' r)"
    by blast
qed

lemma Context_unset_absent:
  "Context_render c = Inr r \<longrightarrow>
     no_none_value r
     \<and> (ctx_ttl c = PNone \<longrightarrow> \<not> has_key ''ttl'' r)
     \<and> (\<not> truthy (ctx_params c) \<longrightarrow> \<not> has_key ''params'' r)"
proof
  assume "Context_render c = Inr r"
  then obtain ps where ps: "\<not> truthy (ctx_params c) \<longrightarrow> ps = PNone"
    and r: "r = PDict (remove_none_item
          [(''name'', ctx_name c), (''lifeSpan'', ctx_lifespan c),
           (''ttl'', ctx_ttl c), (''params'', ps)])"
    by (auto simp: Context_render_def bindE_def split: sum.splits if_splits)
  have n: "no_none_value r" unfolding r by (rule no_none_remove_none_item)
  have t: "ctx_ttl c = PNone \<longrightarrow> \<not> has_key ''ttl'' r"
    by (rule impI, rule absent_key [OF r]) simp
  have q: "\<not> truthy (ctx_params c) \<longrightarrow> \<not> has_key ''params'' r"
    using ps by (intro impI absent_key [OF r]) simp
  from n t q
  show "no_none_value r
     \<and> (ctx_ttl c = PNone \<longrightarrow> \<not> has_key ''ttl'' r)
     \<and> (\<not> truthy (ctx_params c) \<longrightarrow> \<not> has_key ''params'' r)"
    by blast
qed

lemma spec_leaf_unset_absent:
  "spec_leaf_render x k attrs = Inr r \<longrightarrow>
     no_none_value r
     \<and> ((\<forall>a v. (a, v) \<in> set attrs \<and> wire_name x k a = w \<longrightarrow> v = PNone) \<longrightarrow> \<not> has_key w r)"
proof
  assume "spec_leaf_render x k attrs = Inr r"
  then have r: "r = PDict (remove_none_item (map (\<lambda>(a, v). (wire_name x k a, v)) attrs))"
    by (auto simp: spec_leaf_render_def seq_def split: sum.splits)
  have n: "no_none_value r" unfolding r by (rule no_none_remove_none_item)
  have q: "(\<forall>a v. (a, v) \<in> set attrs \<and> wire_name x k a = w \<longrightarrow> v = PNone) \<longrightarrow> \<not> has_key w r"
    by (rule impI, rule absent_key [OF r]) auto
  from n q
  show "no_none_value r
     \<and> ((\<forall>a v. (a, v) \<in> set attrs \<and> wire_name x k a = w \<longrightarrow> v = PNone) \<longrightarrow> \<not> has_key w r)"
    by blast
qed

lemma remove_none_item_absent_imp:
  "(\<forall>v. (k, v) \<in> set base \<longrightarrow> v = PNone) \<longrightarrow> k \<notin> fst ` set (remove_none_item base)"
  using remove_none_item_absent [of k base] by blast

lemma spec_leaf_called:
  "leaf_render x = spec_leaf_render x \<and> call_render x (PLeaf k attrs) = Inr r \<longrightarrow> no_none_value r"
proof (rule impI, elim conjE)
  assume e: "leaf_render x = spec_leaf_render x"
    and c: "call_render x (PLeaf k attrs) = Inr r"
  from c have "leaf_render x k attrs = Inr r" by (simp add: call_render_def)
  with e have "spec_leaf_render x k attrs = Inr r" by simp
  with spec_leaf_unset_absent [of x k attrs r] show "no_none_value r" by blast
qed

text \<open>
  Claim C3: the mapping that \<open>render()\<close> of a leaf or card object returns has no key bound
  to \<open>None\<close>, and an optional field left unset is absent from it. \<open>remove_none_item\<close>
  returns no \<open>None\<close> value and no key that its input binds to \<open>None\<close> only. Each of the
  five cards, \<open>EventUser\<close> and \<open>Context\<close> returns a mapping without \<open>None\<close> in which the key
  of every optional field is absent when the field is unset (\<open>None\<close>, an empty button list,
  a false flag). A leaf that renders as the specification says does the same, also when a
  card calls it.
\<close>

theorem C3_render_omits_none:
  "PNone \<notin> snd ` set (remove_none_item base)
   \<and> ((\<forall>v. (k0, v) \<in> set base \<longrightarrow> v = PNone) \<longrightarrow> k0 \<notin> fst ` set (remove_none_item base))
   \<and> (TextCardComponent_render x tc = Inr r1 \<longrightarrow>
        no_none_value r1
        \<and> (tc_title tc = PNone \<longrightarrow> \<not> has_key ''title'' r1)
        \<and> (tc_description tc = PNone \<longrightarrow> \<not> has_key ''description'' r1)
        \<and> (buttons tc = [] \<longrightarrow> \<not> has_key ''buttons'' r1))
   \<and> (BasicCardComponent_render x bc = Inr r2 \<longrightarrow>
        no_none_value r2
        \<and> (bc_title bc = PNone \<longrightarrow> \<not> has_key ''title'' r2)
        \<and> (bc_description bc = PNone \<longrightarrow> \<not> has_key ''description'' r2)
        \<and> (buttons bc = [] \<longrightarrow> \<not> has_key ''buttons'' r2)
        \<and> (\<not> truthy (bc_forwardable bc) \<longrightarrow> \<not> has_key ''forwardable'' r2))
   \<and> (CommerceCardComponent_render x cc = Inr r3 \<longrightarrow>
        no_none_value r3
        \<and> (cc_title cc = PNone \<longrightarrow> \<not> has_key ''title'' r3)
        \<and> (cc_description cc = PNone \<longrightarrow> \<not> has_key ''description'' r3)
        \<and> (currency cc = PNone \<longrightarrow> \<not> has_key ''currency'' r3)
        \<and> (discount cc = PNone \<longrightarrow> \<not> has_key ''discount'' r3)
        \<and> (discount_rate cc = PNone \<longrightarrow> \<not> has_key ''discountRate'' r3)
        \<and> (discount_price cc = PNone \<longrightarrow> \<not> has_key ''discountPrice'' r3)
        \<and> (\<not> truthy (cc_profile cc) \<longrightarrow> \<not> has_key ''profile'' r3)
        \<and> (buttons cc = [] \<longrightarrow> \<not> has_key ''buttons'' r3))
   \<and> (ListCardComponent_render x lc = Inr r4 \<longrightarrow>
        no_none_value r4 \<and> (buttons lc = [] \<longrightarrow> \<not> has_key ''buttons'' r4))
   \<and> (ItemCardComponent_render x ic = Inr r5 \<longrightarrow>
        no_none_value r5
        \<and> (\<not> truthy (ic_thumbnail ic) \<longrightarrow> \<not> has_key ''thumbnail'' r5)
        \<and> (\<not> truthy (head ic) \<longrightarrow> \<not> has_key ''head'' r5)
        \<and> (\<not> truthy (ic_profile ic) \<longrightarrow> \<not> has_key ''profile'' r5)
        \<and> (\<not> truthy (image_title ic) \<longrightarrow> \<not> has_key ''imageTitle'' r5)
        \<and> (item_list_alignment ic = PNone \<longrightarrow> \<not> has_key ''itemListAlignment'' r5)
        \<and> (\<not> truthy (item_list_summary ic) \<longrightarrow> \<not> has_key ''itemListSummary'' r5)
        \<and> (ic_title ic = PNone \<longrightarrow> \<not> has_key ''title'' r5)
        \<and> (ic_description ic = PNone \<longrightarrow> \<not> has_key ''description'' r5)
        \<and> (button_layout ic = PNone \<longrightarrow> \<not> has_key ''buttonLayout'' r5)
        \<and> (buttons ic = [] \<longrightarrow> \<not> has_key ''buttons'' r5))
   \<and> (EventUser_render ut ui up = Inr r6 \<longrightarrow>
        no_none_value r6 \<and> (up = PNone \<longrightarrow> \<not> has_key ''properties'' r6))
   \<and> (Context_render ctx = Inr r7 \<longrightarrow>
        no_none_value r7
        \<and> (ctx_ttl ctx = PNone \<longrightarrow> \<not> has_key ''ttl'' r7)
        \<and> (\<not> truthy (ctx_params ctx) \<longrightarrow> \<not> has_key ''params'' r7))
   \<and> (spec_leaf_render x k attrs = Inr r8 \<longrightarrow>
        no_none_value r8
        \<and> ((\<forall>a v. (a, v) \<in> set attrs \<and> wire_name x k a = w \<longrightarrow> v = PNone)
             \<longrightarrow> \<not> has_key w r8))
   \<and> (leaf_render x = spec_leaf_render x \<and> call_render x (PLeaf k' attrs') = Inr r9
        \<longrightarrow> no_none_value r9)"
  by (intro conjI remove_none_item_no_none remove_none_item_absent_imp TextCard_unset_absent
      BasicCard_unset_absent CommerceCard_unset_absent ListCard_unset_absent
      ItemCard_unset_absent EventUser_unset_absent Context_unset_absent
      spec_leaf_unset_absent spec_leaf_called)

theorem C3_render_omits_none_witness:
  "BasicCardComponent_render plain_ext sample_basic_card
     = Inr (PDict [(''thumbnail'', PDict [(''imageUrl'', PStr ''https://example.com/image.jpg'')]),
                   (''title'', PStr ''title'')])
   \<and> no_none_value (PDict [(''thumbnail'', PDict [(''imageUrl'', PStr ''https://example.com/image.jpg'')]),
                   (''title'', PStr ''title'')])
   \<and> \<not> has_key ''description''
         (PDict [(''thumbnail'', PDict [(''imageUrl'', PStr ''https://example.com/image.jpg'')]),
                   (''title'', PStr ''title'')])
   \<and> \<not> has_key ''forwardable''
         (PDict [(''thumbnail'', PDict [(''imageUrl'', PStr ''https://example.com/image.jpg'')]),
                   (''title'', PStr ''title'')])
   \<and> spec_leaf_render plain_ext Button sample_button_unset
     = Inr (PDict [(''label'', PStr ''open''), (''action'', PStr ''message''),
                   (''message_text'', PStr ''hello'')])
   \<and> \<not> has_key ''web_link_url''
         (PDict [(''label'', PStr ''open''), (''action'', PStr ''message''),
                 (''message_text'', PStr ''hello'')])"
proof -
  have r: "BasicCardComponent_render plain_ext sample_basic_card
     = Inr (PDict [(''thumbnail'', PDict [(''imageUrl'', PStr ''https://example.com/image.jpg'')]),
                   (''title'', PStr ''title'')])"
    by (simp add: BasicCardComponent_render_def BasicCardComponent_validate_def
        ParentCardComponent_validate_def sample_basic_card_def plain_ext_def validate_type_def
        isinstance_def
        validate_str_def call_render_def render_list_def remove_none_item_def seq_def bindE_def)
  have f: "\<not> truthy (bc_forwardable sample_basic_card)"
    and d: "bc_description sample_basic_card = PNone"
    by (simp_all add: sample_basic_card_def)
  have l: "spec_leaf_render plain_ext Button sample_button_unset
     = Inr (PDict [(''label'', PStr ''open''), (''action'', PStr ''message''),
                   (''message_text'', PStr ''hello'')])"
    by (simp add: spec_leaf_render_def plain_ext_def sample_button_unset_def
        remove_none_item_def seq_def)
  have u: "\<forall>a v. (a, v) \<in> set sample_button_unset \<and> wire_name plain_ext Button a = ''web_link_url''
             \<longrightarrow> v = PNone"
    by (auto simp: sample_button_unset_def plain_ext_def)
  note inst =
      C3_render_omits_none
        [where x = plain_ext and bc = sample_basic_card
           and ?r2.0 = "PDict [(''thumbnail'', PDict [(''imageUrl'', PStr ''https://example.com/image.jpg'')]),
                   (''title'', PStr ''title'')]"
           and k = Button and attrs = sample_button_unset and w = "''web_link_url''"
           and ?r8.0 = "PDict [(''label'', PStr ''open''), (''action'', PStr ''message''),
                   (''message_text'', PStr ''hello'')]"]
  show ?thesis
    using r f d l u inst by simp
qed

end
